theory Spec2Isabelle
  imports Complex_Main "HOL-Library.Word"
begin

section \<open>Exceptions and values shared by the notebook models\<close>

text \<open>
  The notebooks are Python. An exception is a value of \<open>error\<close>; a computation that may
  raise returns \<open>error + 'a\<close> with \<open>Inl\<close> for the exception. \<open>LibraryError\<close> stands for
  whatever an external library call (numpy, scikit-image, matplotlib) raises.
\<close>

datatype error =
    NameError string
  | ValueError string
  | IndexError string
  | AttributeError string
  | LibraryError string

section \<open>The helper \<open>imshow_all\<close> of the filtering notebook\<close>

text \<open>
  \<^verbatim>\<open>def imshow_all(*images, **kwargs)\<close>, src/visualization.ipynb lines 388 to 430.

  A converted image is the array \<open>img_as_float\<close> returns. The helper only takes its
  minimum and maximum and hands it to \<open>ax.imshow\<close>, so it is modelled by its samples in
  row-major order. Samples are real numbers: taking a minimum or a maximum does not
  round, and NaN samples are outside the model.
\<close>

type_synonym float_image = "real list"

text \<open>
  The keyword dictionary \<open>kwargs\<close>, with the keys the helper reads at the types its
  docstring and its callers give them (\<open>titles\<close>: list of str, \<open>limits\<close>: str,
  \<open>shape=(1, 2)\<close>, \<open>size\<close>: a number, \<open>vmin\<close> and \<open>vmax\<close>: numbers). A key that is absent
  from the dictionary is \<open>None\<close>. Every other keyword is kept in \<open>kw_other\<close> and passed on
  to \<open>ax.imshow\<close> untouched.
\<close>

record kwargs =
  kw_titles :: "string list option"
  kw_limits :: "string option"
  kw_vmin :: "real option"
  kw_vmax :: "real option"
  kw_shape :: "(int \<times> int) option"
  kw_size :: "real option"
  kw_other :: "(string \<times> string) list"

text \<open>
  The numbers of the figure size, \<open>size\<close> and \<open>width\<close>. Python computes them in floating
  point as soon as an operand is a float (a \<open>size\<close> given as a float, the literal \<open>1.33\<close>),
  and each operation rounds. The model does not compute them: it keeps the arithmetic
  as the code writes it, over the numbers that enter it (\<open>Number\<close>: an integer of the code
  or a number passed in) and the float literals as written (\<open>Literal\<close>). \<open>Mul a b\<close> is
  \<open>a * b\<close> and \<open>TrueDiv a b\<close> is \<open>a / b\<close>.
\<close>

datatype pynumber =
    Number real
  | Literal string
  | Mul pynumber pynumber
  | TrueDiv pynumber pynumber

text \<open>
  The external calls the helper makes. Each may raise.
  \<^item> \<open>img_as_float\<close>: \<open>skimage.img_as_float(img)\<close>;
  \<^item> \<open>dtype_limits\<close>: what a global \<open>dtype_limits\<close> would compute, were one bound;
  \<^item> \<open>plt_subplots nrows ncols width size\<close>: the flattened axes \<open>axes.ravel()\<close> of
    \<open>plt.subplots(nrows=nrows, ncols=ncols, figsize=(width, size))\<close>, or the exception
    either of the two calls raises;
  \<^item> \<open>ax_imshow\<close>, \<open>ax_set_title\<close>: \<open>ax.imshow(img, **kwargs)\<close> and \<open>ax.set_title(label)\<close>,
    \<open>None\<close> when they return.
\<close>

record ('img, 'ax) library =
  img_as_float :: "'img \<Rightarrow> error + float_image"
  dtype_limits :: "float_image \<Rightarrow> error + (real \<times> real)"
  plt_subplots :: "int \<Rightarrow> int \<Rightarrow> pynumber \<Rightarrow> pynumber \<Rightarrow> error + 'ax list"
  ax_imshow :: "'ax \<Rightarrow> float_image \<Rightarrow> kwargs \<Rightarrow> error option"
  ax_set_title :: "'ax \<Rightarrow> string \<Rightarrow> error option"

text \<open>The plotting calls that have returned, in order: what the helper has displayed.\<close>

datatype 'ax event =
    Subplots int int pynumber pynumber
  | Imshow 'ax float_image kwargs
  | SetTitle 'ax string

text \<open>
  A global name is looked up when the statement that reads it runs; \<open>G\<close> is the set of
  names bound in the notebook's namespace at the time of the call.
\<close>

definition lookup :: "string set \<Rightarrow> string \<Rightarrow> error + unit" where
  "lookup G name = (if name \<in> G then Inr () else Inl (NameError name))"

text \<open>
  \<^verbatim>\<open>images = [img_as_float(img) for img in images]\<close>: the name \<open>img_as_float\<close> is read
  once per image, and the comprehension stops at the first exception.
\<close>

fun convert_all :: "string set \<Rightarrow> ('img, 'ax) library \<Rightarrow> 'img list \<Rightarrow> error + float_image list" where
  "convert_all G L [] = Inr []"
| "convert_all G L (img # rest) =
     (case lookup G ''img_as_float'' of
        Inl e \<Rightarrow> Inl e
      | Inr _ \<Rightarrow>
          (case img_as_float L img of
             Inl e \<Rightarrow> Inl e
           | Inr f \<Rightarrow>
               (case convert_all G L rest of
                  Inl e \<Rightarrow> Inl e
                | Inr fs \<Rightarrow> Inr (f # fs))))"

text \<open>
  \<^verbatim>\<open>titles = kwargs.pop('titles', [])\<close>
  \<^verbatim>\<open>if len(titles) != len(images):\<close>
  \<^verbatim>\<open>    titles = list(titles) + [''] * (len(images) - len(titles))\<close>
  A list times a negative number is the empty list.
\<close>

definition pad_titles :: "string list \<Rightarrow> nat \<Rightarrow> string list" where
  "pad_titles titles n =
     (if length titles \<noteq> n
      then titles @ replicate (nat (int n - int (length titles))) ''''
      else titles)"

text \<open>
  \<open>img.min()\<close> and \<open>img.max()\<close> of a numpy array raise ValueError on an array without
  elements; the builtins \<open>min\<close> and \<open>max\<close> raise ValueError on an empty sequence.
\<close>

definition arr_min :: "float_image \<Rightarrow> error + real" where
  "arr_min a =
     (case a of
        [] \<Rightarrow> Inl (ValueError ''zero-size array to reduction operation minimum which has no identity'')
      | x # xs \<Rightarrow> Inr (fold min xs x))"

definition arr_max :: "float_image \<Rightarrow> error + real" where
  "arr_max a =
     (case a of
        [] \<Rightarrow> Inl (ValueError ''zero-size array to reduction operation maximum which has no identity'')
      | x # xs \<Rightarrow> Inr (fold max xs x))"

text \<open>A generator expression \<open>(f(img) for img in images)\<close>, consumed to its first exception.\<close>

fun gen :: "('a \<Rightarrow> error + 'b) \<Rightarrow> 'a list \<Rightarrow> error + 'b list" where
  "gen f [] = Inr []"
| "gen f (x # xs) =
     (case f x of
        Inl e \<Rightarrow> Inl e
      | Inr y \<Rightarrow> (case gen f xs of Inl e \<Rightarrow> Inl e | Inr ys \<Rightarrow> Inr (y # ys)))"

definition py_min :: "(error + real list) \<Rightarrow> error + real" where
  "py_min g =
     (case g of
        Inl e \<Rightarrow> Inl e
      | Inr [] \<Rightarrow> Inl (ValueError ''min() arg is an empty sequence'')
      | Inr (x # xs) \<Rightarrow> Inr (fold min xs x))"

definition py_max :: "(error + real list) \<Rightarrow> error + real" where
  "py_max g =
     (case g of
        Inl e \<Rightarrow> Inl e
      | Inr [] \<Rightarrow> Inl (ValueError ''max() arg is an empty sequence'')
      | Inr (x # xs) \<Rightarrow> Inr (fold max xs x))"

text \<open>\<open>kwargs.setdefault(key, value)\<close> on the keys \<open>vmin\<close> and \<open>vmax\<close>.\<close>

definition setdefault_vmin :: "real \<Rightarrow> kwargs \<Rightarrow> kwargs" where
  "setdefault_vmin v kw = (case kw_vmin kw of None \<Rightarrow> kw\<lparr>kw_vmin := Some v\<rparr> | Some _ \<Rightarrow> kw)"

definition setdefault_vmax :: "real \<Rightarrow> kwargs \<Rightarrow> kwargs" where
  "setdefault_vmax v kw = (case kw_vmax kw of None \<Rightarrow> kw\<lparr>kw_vmax := Some v\<rparr> | Some _ \<Rightarrow> kw)"

text \<open>
  Lines 412 to 419, on the dictionary from which \<open>limits\<close> has been popped. The argument
  of \<open>setdefault\<close> is evaluated before the call, whether or not the key is present. In
  \<open>dtype_limits(images[0])\<close> the name \<open>dtype_limits\<close> is read before \<open>images[0]\<close> is.
\<close>

definition set_limits ::
  "string set \<Rightarrow> ('img, 'ax) library \<Rightarrow> string \<Rightarrow> float_image list \<Rightarrow> kwargs \<Rightarrow> error + kwargs" where
  "set_limits G L limits images kw =
     (if limits = ''image'' then
        (case py_min (gen arr_min images) of
           Inl e \<Rightarrow> Inl e
         | Inr lo \<Rightarrow>
             (case py_max (gen arr_max images) of
                Inl e \<Rightarrow> Inl e
              | Inr hi \<Rightarrow> Inr (setdefault_vmax hi (setdefault_vmin lo kw))))
      else if limits = ''dtype'' then
        (case lookup G ''dtype_limits'' of
           Inl e \<Rightarrow> Inl e
         | Inr _ \<Rightarrow>
             (case images of
                [] \<Rightarrow> Inl (IndexError ''list index out of range'')
              | img0 # _ \<Rightarrow>
                  (case dtype_limits L img0 of
                     Inl e \<Rightarrow> Inl e
                   | Inr (lo, hi) \<Rightarrow> Inr (setdefault_vmax hi (setdefault_vmin lo kw)))))
      else Inr kw)"

text \<open>
  Lines 421 to 426.
  \<^verbatim>\<open>nrows, ncols = kwargs.get('shape', (1, len(images)))\<close>
  \<^verbatim>\<open>size = nrows * kwargs.pop('size', 5)\<close>
  \<^verbatim>\<open>width = size * len(images)\<close>
  \<^verbatim>\<open>if nrows > 1: width /= nrows * 1.33\<close>
  (\<open>sz\<close> is the source's \<open>size\<close>.) \<open>width\<close> is a number, so \<open>width /= x\<close> binds \<open>width\<close> to
  the quotient \<open>width / x\<close>.
\<close>

definition grid_shape :: "kwargs \<Rightarrow> nat \<Rightarrow> int \<times> int" where
  "grid_shape kw n = (case kw_shape kw of None \<Rightarrow> (1, int n) | Some s \<Rightarrow> s)"

definition fig_size :: "kwargs \<Rightarrow> int \<Rightarrow> pynumber" where
  "fig_size kw nrows =
     Mul (Number (real_of_int nrows)) (Number (case kw_size kw of None \<Rightarrow> 5 | Some s \<Rightarrow> s))"

definition fig_width :: "pynumber \<Rightarrow> int \<Rightarrow> nat \<Rightarrow> pynumber" where
  "fig_width sz nrows n =
     (let width = Mul sz (Number (real n))
      in if nrows > 1
         then TrueDiv width (Mul (Number (real_of_int nrows)) (Literal ''1.33''))
         else width)"

text \<open>
  Lines 428 to 430.
  \<^verbatim>\<open>for ax, img, label in zip(axes.ravel(), images, titles):\<close>
  \<^verbatim>\<open>    ax.imshow(img, **kwargs)\<close>
  \<^verbatim>\<open>    ax.set_title(label)\<close>
  The result is the list of plotting calls that returned, and the exception that ended
  the loop, if any.
\<close>

fun show_loop ::
  "('img, 'ax) library \<Rightarrow> kwargs \<Rightarrow> ('ax \<times> float_image \<times> string) list \<Rightarrow> 'ax event list \<times> error option" where
  "show_loop L kw [] = ([], None)"
| "show_loop L kw ((ax, img, label) # rest) =
     (case ax_imshow L ax img kw of
        Some e \<Rightarrow> ([], Some e)
      | None \<Rightarrow>
          (case ax_set_title L ax label of
             Some e \<Rightarrow> ([Imshow ax img kw], Some e)
           | None \<Rightarrow>
               (case show_loop L kw rest of
                  (tr, r) \<Rightarrow> (Imshow ax img kw # SetTitle ax label # tr, r))))"

text \<open>
  The whole helper: the plotting calls that returned, and \<open>None\<close> when the helper returns
  or \<open>Some e\<close> when it raises \<open>e\<close>. \<open>pop\<close> removes a key from the dictionary, \<open>get\<close>
  leaves it: \<open>titles\<close>, \<open>limits\<close> and \<open>size\<close> are gone from the dictionary handed to
  \<open>ax.imshow\<close>, \<open>shape\<close> is still there.
\<close>

definition imshow_all ::
  "string set \<Rightarrow> ('img, 'ax) library \<Rightarrow> 'img list \<Rightarrow> kwargs \<Rightarrow> 'ax event list \<times> error option" where
  "imshow_all G L images kwargs =
     (case convert_all G L images of
        Inl e \<Rightarrow> ([], Some e)
      | Inr imgs \<Rightarrow>
          (let titles = pad_titles (case kw_titles kwargs of None \<Rightarrow> [] | Some t \<Rightarrow> t) (length imgs);
               kw1 = kwargs\<lparr>kw_titles := None\<rparr>;
               limits = (case kw_limits kw1 of None \<Rightarrow> ''image'' | Some l \<Rightarrow> l);
               kw2 = kw1\<lparr>kw_limits := None\<rparr>
           in case set_limits G L limits imgs kw2 of
                Inl e \<Rightarrow> ([], Some e)
              | Inr kw3 \<Rightarrow>
                  (let (nrows, ncols) = grid_shape kw3 (length imgs);
                       sz = fig_size kw3 nrows;
                       kw4 = kw3\<lparr>kw_size := None\<rparr>;
                       width = fig_width sz nrows (length imgs)
                   in case lookup G ''plt'' of
                        Inl e \<Rightarrow> ([], Some e)
                      | Inr _ \<Rightarrow>
                          (case plt_subplots L nrows ncols width sz of
                             Inl e \<Rightarrow> ([], Some e)
                           | Inr axes \<Rightarrow>
                               (case show_loop L kw4 (zip axes (zip imgs titles)) of
                                  (tr, r) \<Rightarrow> (Subplots nrows ncols width sz # tr, r))))))"

subsection \<open>A library instance to run the helper on\<close>

text \<open>
  A stand-in for the external libraries, for running \<open>imshow_all\<close> on concrete inputs.
  \<^item> The images are 64-bit float images, which \<open>img_as_float\<close> returns as they are.
  \<^item> For a grid of one row and one column \<open>plt.subplots\<close> returns a single \<open>Axes\<close>, not an
    array, and \<open>axes.ravel()\<close> raises AttributeError. For any larger grid \<open>axes.ravel()\<close>
    is an array of \<open>nrows * ncols\<close> axes, numbered here from 0. A grid with a number of
    rows or columns that is not positive is refused with ValueError, as matplotlib 3
    does; the stand-in is not run on such a grid.
  \<^item> The plotting calls return.
\<close>

definition float_library :: "(float_image, nat) library" where
  "float_library =
     \<lparr>img_as_float = (\<lambda>img. Inr img),
      dtype_limits = (\<lambda>_. Inr (0, 1)),
      plt_subplots = (\<lambda>nrows ncols width sz.
         if nrows \<le> 0 \<or> ncols \<le> 0
         then Inl (ValueError ''Number of rows and columns must be a positive integer'')
         else if nrows * ncols = 1
         then Inl (AttributeError ''AxesSubplot object has no attribute ravel'')
         else Inr [0..<nat (nrows * ncols)]),
      ax_imshow = (\<lambda>_ _ _. None),
      ax_set_title = (\<lambda>_ _. None)\<rparr>"

text \<open>The empty keyword dictionary: a call \<open>imshow_all(img1, img2)\<close>.\<close>

definition no_kwargs :: kwargs where
  "no_kwargs = \<lparr>kw_titles = None, kw_limits = None, kw_vmin = None, kw_vmax = None,
                 kw_shape = None, kw_size = None, kw_other = []\<rparr>"

section \<open>The notebooks as syntax\<close>

text \<open>
  The code cells of the three notebooks, as abstract syntax of the Python they are
  written in. src/arrays.ipynb holds one notebook. src/visualization.ipynb holds two
  JSON documents one after the other: the visualization notebook (lines 1 to 343) and
  the filtering notebook (lines 344 to 945), each with a kernel of its own.
\<close>

datatype binop = OpAdd | OpSub | OpMul | OpDiv | OpLt | OpGt | OpEq | OpNe

text \<open>
  Expressions. \<open>Num\<close> and \<open>Str\<close> carry the literal as written; \<open>Kw\<close>, \<open>Star\<close> and \<open>StarStar\<close>
  occur in argument lists (\<open>cmap='gray'\<close>, \<open>*im.shape\<close>, \<open>**kwargs\<close>); \<open>Slice\<close> occurs in
  subscripts (\<open>10:110\<close>, \<open>:200\<close>, \<open>:\<close>); \<open>ListComp e x it\<close> is \<open>[e for x in it]\<close> and
  \<open>GenExp e x it\<close> is \<open>(e for x in it)\<close>.
\<close>

datatype expr =
    Name string
  | Num string
  | Str string
  | Attr expr string
  | Call expr "expr list"
  | Kw string expr
  | Star expr
  | StarStar expr
  | Subscript expr "expr list"
  | Slice "expr option" "expr option"
  | BinOp binop expr expr
  | Tuple "expr list"
  | PyList "expr list"
  | ListComp expr expr expr
  | GenExp expr expr expr

text \<open>
  Statements. \<open>Magic\<close> is an IPython line such as \<open>%matplotlib inline\<close>; \<open>Import\<close> lists
  modules with their \<open>as\<close> names; \<open>Doc\<close> is a docstring (its first line); \<open>TryS body handler\<close>
  is \<open>try: body except: handler\<close>.
\<close>

datatype stmt =
    Magic string
  | Import "(string \<times> string option) list"
  | FromImport string "string list"
  | Assign expr expr
  | AugAssign expr binop expr
  | Expr expr
  | Doc string
  | Def string "string list" "stmt list"
  | IfS expr "stmt list" "stmt list"
  | ForS expr expr "stmt list"
  | TryS "stmt list" "stmt list"

text \<open>
  A code cell: the line of its first source line in the file, and its statements. A
  cell that holds only a comment has no statement.
\<close>

type_synonym cell = "nat \<times> stmt list"

text \<open>Shorthands for the shapes that fill the notebooks.\<close>

definition meth :: "string \<Rightarrow> string \<Rightarrow> expr list \<Rightarrow> expr" where
  \<comment> \<open>\<open>obj.meth(args)\<close>\<close>
  "meth obj m args = Call (Attr (Name obj) m) args"

definition plt_imshow :: "expr list \<Rightarrow> stmt" where
  \<comment> \<open>the statement \<open>plt.imshow(args)\<close>\<close>
  "plt_imshow args = Expr (meth ''plt'' ''imshow'' args)"

definition py_print :: "expr list \<Rightarrow> stmt" where
  \<comment> \<open>the statement \<open>print(args)\<close>\<close>
  "py_print args = Expr (Call (Name ''print'') args)"

subsection \<open>src/arrays.ipynb\<close>

definition arrays_nb :: "cell list" where
  "arrays_nb =
    [(20, [Magic ''%matplotlib inline'',
           Import [(''numpy'', Some ''np'')],
           Import [(''matplotlib.pyplot'', Some ''plt'')]]),
     (40, [FromImport ''skimage'' [''data''],
           Assign (Name ''coins'') (meth ''data'' ''coins'' [])]),
     (50, [Expr (Call (Name ''type'') [Name ''coins''])]),
     (59, [plt_imshow [Name ''coins'', Kw ''cmap'' (Str ''gray'')]]),
     (68, [py_print [Str ''Pixel value:'', Subscript (Name ''coins'') [Num ''0'', Num ''0'']],
           py_print [Str ''Data type:'', Attr (Name ''coins'') ''dtype''],
           py_print [Str ''Interval of pixel values:'',
                  Tuple [meth ''coins'' ''min'' [], meth ''coins'' ''max'' []]],
           py_print [Str ''Image dimension:'', Attr (Name ''coins'') ''shape'']]),
     (80, [Assign (Name ''cat'') (meth ''data'' ''chelsea'' []),
           plt_imshow [Name ''cat''],
           py_print [Attr (Name ''cat'') ''shape'']]),
     (98, [Assign (Subscript (Name ''cat'')
                     [Slice (Some (Num ''10'')) (Some (Num ''110'')),
                      Slice (Some (Num ''10'')) (Some (Num ''110'')),
                      Slice None None])
                  (PyList [Num ''255'', Num ''0'', Num ''0'']),
           plt_imshow [Name ''cat'']]),
     (145, [Assign (Name ''mask_bg'') (BinOp OpLt (Name ''coins'') (Num ''90'')),
            Assign (Name ''coins_bg'') (meth ''np'' ''copy'' [Name ''coins'']),
            Assign (Subscript (Name ''coins_bg'') [Name ''mask_bg'']) (Num ''0''),
            Assign (Tuple [Name ''fig'', Name ''axes''])
                   (meth ''plt'' ''subplots''
                      [Kw ''ncols'' (Num ''2''), Kw ''figsize'' (Tuple [Num ''12'', Num ''6''])]),
            Expr (Call (Attr (Subscript (Name ''axes'') [Num ''0'']) ''imshow'')
                    [Name ''mask_bg'', Kw ''cmap'' (Str ''gray'')]),
            Expr (Call (Attr (Subscript (Name ''axes'') [Num ''1'']) ''imshow'')
                    [Name ''coins_bg'', Kw ''cmap'' (Str ''gray'')])]),
     (178, []),
     (210, [Assign (Name ''camera'') (meth ''data'' ''camera'' []),
            py_print [Str ''Data type:'', Attr (Name ''camera'') ''dtype''],
            Assign (Name ''camera_overflow'') (BinOp OpMul (Num ''2'') (Name ''camera'')),
            Assign (Tuple [Name ''fig'', Name ''axes''])
                   (meth ''plt'' ''subplots''
                      [Kw ''ncols'' (Num ''2''), Kw ''figsize'' (Tuple [Num ''10'', Num ''5''])]),
            Expr (Call (Attr (Subscript (Name ''axes'') [Num ''0'']) ''imshow'')
                    [Name ''camera'', Kw ''cmap'' (Str ''gray'')]),
            Expr (Call (Attr (Subscript (Name ''axes'') [Num ''1'']) ''imshow'')
                    [Name ''camera_overflow'', Kw ''cmap'' (Str ''gray'')])]),
     (224, [FromImport ''skimage'' [''img_as_float''],
            Assign (Name ''camera_float'') (Call (Name ''img_as_float'') [Name ''camera'']),
            py_print [Str ''Max for uint dtype:'', meth ''camera'' ''max'' []],
            py_print [Str ''Max for float dtype:'', meth ''camera_float'' ''max'' []]]),
     (236, [FromImport ''skimage'' [''filters''],
            Assign (Name ''camera_gaussian'')
                   (meth ''filters'' ''gaussian'' [Name ''camera'', Kw ''sigma'' (Num ''5'')]),
            py_print [Str ''camera :'', Attr (Name ''camera'') ''dtype'', meth ''camera'' ''max'' []],
            py_print [Str ''camera_gaussian:'', Attr (Name ''camera_gaussian'') ''dtype'',
                   meth ''camera_gaussian'' ''max'' []],
            plt_imshow [Name ''camera_gaussian'', Kw ''cmap'' (Str ''gray'')]]),
     (258, [Import [(''skimage'', None)],
            Import [(''os'', None)],
            Assign (Name ''data_dir'') (Attr (Name ''skimage'') ''data_dir''),
            Assign (Name ''camera_filename'')
                   (Call (Attr (Attr (Name ''os'') ''path'') ''join'')
                      [Name ''data_dir'', Str ''camera.png'']),
            py_print [Name ''camera_filename'']]),
     (271, [FromImport ''skimage'' [''io''],
            Assign (Name ''camera'') (meth ''io'' ''imread'' [Name ''camera_filename'']),
            plt_imshow [Name ''camera'', Kw ''cmap'' (Str ''gray'')]]),
     (282, [Import [(''tempfile'', None)],
            Assign (Name ''tmp_dir'') (meth ''tempfile'' ''mkdtemp'' []),
            Assign (Name ''file_name'')
                   (Call (Attr (Attr (Name ''os'') ''path'') ''join'')
                      [Name ''tmp_dir'', Str ''my_camera.png'']),
            Expr (meth ''io'' ''imsave'' [Name ''file_name'', Name ''camera'']),
            Expr (meth ''os'' ''listdir'' [Name ''tmp_dir''])]),
     (295, [Assign (Name ''file_name'')
                   (Call (Attr (Attr (Name ''os'') ''path'') ''join'')
                      [Name ''tmp_dir'', Str ''gaussian_camera.png'']),
            Expr (meth ''io'' ''imsave'' [Name ''file_name'', Name ''camera_gaussian''])])]"

subsection \<open>src/visualization.ipynb, lines 1 to 343: the visualization notebook\<close>

definition visualization_nb :: "cell list" where
  "visualization_nb =
    [(24, [Magic ''%matplotlib notebook'']),
     (35, [Import [(''numpy'', Some ''np'')],
           Import [(''matplotlib.pyplot'', Some ''plt'')]]),
     (54, [FromImport ''skimage'' [''data''],
           Assign (Name ''cat'') (meth ''data'' ''chelsea'' [])]),
     (66, [plt_imshow [Name ''cat''],
           Expr (meth ''plt'' ''axis'' [Str ''off''])]),
     (79, [Assign (Name ''camera'') (meth ''data'' ''camera'' [])]),
     (88, [Expr (meth ''plt'' ''figure'' []),
           plt_imshow [Name ''camera''],
           Expr (meth ''plt'' ''colorbar'' [])]),
     (101, [Expr (meth ''plt'' ''gray'' [])]),
     (117, [Assign (Name ''a'')
                   (BinOp OpMul (BinOp OpDiv (Num ''1.'') (Num ''25''))
                      (Call (Attr (meth ''np'' ''arange'' [Num ''25'']) ''reshape'')
                         [Tuple [Num ''5'', Num ''5'']])),
            Expr (meth ''plt'' ''figure'' []),
            plt_imshow [Name ''a'']]),
     (128, [Expr (meth ''plt'' ''figure'' []),
            plt_imshow [Name ''a'', Kw ''interpolation'' (Str ''bicubic'')]]),
     (145, [Expr (meth ''plt'' ''figure'' []),
            plt_imshow [BinOp OpLt (Name ''camera'') (Num ''40'')]]),
     (157, [Expr (meth ''plt'' ''figure'' []),
            plt_imshow [Name ''camera''],
            Expr (meth ''plt'' ''contour''
                    [Name ''camera'', PyList [Num ''40''], Kw ''colors'' (Str ''r'')])]),
     (175, [Import [(''tempfile'', None), (''os'', None)],
            Assign (Name ''tmp_dir'') (meth ''tempfile'' ''mkdtemp'' []),
            Assign (Name ''file_name_png'')
                   (Call (Attr (Attr (Name ''os'') ''path'') ''join'')
                      [Name ''tmp_dir'', Str ''figure.png'']),
            Expr (meth ''plt'' ''savefig'' [Name ''file_name_png'']),
            Assign (Name ''file_name_pdf'')
                   (Call (Attr (Attr (Name ''os'') ''path'') ''join'')
                      [Name ''tmp_dir'', Str ''figure.pdf'']),
            Expr (meth ''plt'' ''savefig'' [Name ''file_name_pdf'']),
            Expr (meth ''os'' ''listdir'' [Name ''tmp_dir''])]),
     (199, [FromImport ''skimage'' [''feature'']]),
     (208, [Assign (Name ''coords'')
                   (meth ''feature'' ''corner_peaks''
                      [meth ''feature'' ''corner_harris'' [Name ''camera''],
                       Kw ''min_distance'' (Num ''3'')]),
            py_print [Attr (Name ''coords'') ''shape'']]),
     (218, [Expr (meth ''plt'' ''figure'' []),
            plt_imshow [Name ''camera''],
            Expr (meth ''plt'' ''plot''
                    [Subscript (Name ''coords'') [Slice None None, Num ''1''],
                     Subscript (Name ''coords'') [Slice None None, Num ''0''],
                     Str ''+y'', Kw ''ms'' (Num ''10'')])]),
     (249, []),
     (269, [FromImport ''skimage'' [''draw'', ''transform'']]),
     (280, [Expr (meth ''plt'' ''figure'' []),
            Assign (Name ''coins'') (meth ''data'' ''coins'' []),
            plt_imshow [Name ''coins''],
            FromImport ''skimage'' [''color''],
            Assign (Name ''coins_color'') (meth ''color'' ''gray2rgb'' [Name ''coins'']),
            plt_imshow [Name ''coins_color'']]),
     (294, [Assign (Tuple [Name ''c_rr'', Name ''c_cc''])
                   (meth ''draw'' ''circle_perimeter'' [Num ''53'', Num ''45'', Num ''22'']),
            Assign (Subscript (Name ''coins_color'') [Name ''c_rr'', Name ''c_cc''])
                   (Tuple [Num ''220'', Num ''20'', Num ''20'']),
            plt_imshow [Subscript (Name ''coins_color'')
                      [Slice None (Some (Num ''200'')), Slice None (Some (Num ''200''))]]]),
     (312, [Assign (Name ''coffee'') (meth ''data'' ''coffee'' []),
            FromImport ''skimage'' [''segmentation''],
            Assign (Name ''superpixels'') (meth ''segmentation'' ''slic'' [Name ''coffee'']),
            Assign (Tuple [Name ''fig'', Name ''ax''])
                   (meth ''plt'' ''subplots''
                      [Kw ''ncols'' (Num ''2''), Kw ''figsize'' (Tuple [Num ''8'', Num ''4''])]),
            Assign (Name ''ax'') (meth ''ax'' ''ravel'' []),
            Expr (Call (Attr (Subscript (Name ''ax'') [Num ''0'']) ''imshow'')
                    [Name ''superpixels'', Kw ''cmap'' (Str ''nipy_spectral'')]),
            Expr (Call (Attr (Subscript (Name ''ax'') [Num ''1'']) ''imshow'')
                    [meth ''segmentation'' ''mark_boundaries''
                       [Name ''coffee'', Name ''superpixels'']])])]"

subsection \<open>src/visualization.ipynb, lines 344 to 945: the filtering notebook\<close>

text \<open>The helper of lines 388 to 430, statement by statement.\<close>

definition imshow_all_def_stmt :: stmt where
  "imshow_all_def_stmt =
     Def ''imshow_all'' [''*images'', ''**kwargs'']
       [Doc ''Plot a series of images side-by-side.'',
        Assign (Name ''images'')
               (ListComp (Call (Name ''img_as_float'') [Name ''img'']) (Name ''img'') (Name ''images'')),
        Assign (Name ''titles'') (meth ''kwargs'' ''pop'' [Str ''titles'', PyList []]),
        IfS (BinOp OpNe (Call (Name ''len'') [Name ''titles'']) (Call (Name ''len'') [Name ''images'']))
            [Assign (Name ''titles'')
                    (BinOp OpAdd (Call (Name ''list'') [Name ''titles''])
                       (BinOp OpMul (PyList [Str ''''])
                          (BinOp OpSub (Call (Name ''len'') [Name ''images''])
                                       (Call (Name ''len'') [Name ''titles'']))))]
            [],
        Assign (Name ''limits'') (meth ''kwargs'' ''pop'' [Str ''limits'', Str ''image'']),
        IfS (BinOp OpEq (Name ''limits'') (Str ''image''))
            [Expr (meth ''kwargs'' ''setdefault''
                     [Str ''vmin'',
                      Call (Name ''min'') [GenExp (meth ''img'' ''min'' []) (Name ''img'') (Name ''images'')]]),
             Expr (meth ''kwargs'' ''setdefault''
                     [Str ''vmax'',
                      Call (Name ''max'') [GenExp (meth ''img'' ''max'' []) (Name ''img'') (Name ''images'')]])]
            [IfS (BinOp OpEq (Name ''limits'') (Str ''dtype''))
                 [Assign (Tuple [Name ''vmin'', Name ''vmax''])
                         (Call (Name ''dtype_limits'') [Subscript (Name ''images'') [Num ''0'']]),
                  Expr (meth ''kwargs'' ''setdefault'' [Str ''vmin'', Name ''vmin'']),
                  Expr (meth ''kwargs'' ''setdefault'' [Str ''vmax'', Name ''vmax''])]
                 []],
        Assign (Tuple [Name ''nrows'', Name ''ncols''])
               (meth ''kwargs'' ''get''
                  [Str ''shape'', Tuple [Num ''1'', Call (Name ''len'') [Name ''images'']]]),
        Assign (Name ''size'')
               (BinOp OpMul (Name ''nrows'') (meth ''kwargs'' ''pop'' [Str ''size'', Num ''5''])),
        Assign (Name ''width'') (BinOp OpMul (Name ''size'') (Call (Name ''len'') [Name ''images''])),
        IfS (BinOp OpGt (Name ''nrows'') (Num ''1''))
            [AugAssign (Name ''width'') OpDiv (BinOp OpMul (Name ''nrows'') (Num ''1.33''))]
            [],
        Assign (Tuple [Name ''fig'', Name ''axes''])
               (meth ''plt'' ''subplots''
                  [Kw ''nrows'' (Name ''nrows''), Kw ''ncols'' (Name ''ncols''),
                   Kw ''figsize'' (Tuple [Name ''width'', Name ''size''])]),
        ForS (Tuple [Name ''ax'', Name ''img'', Name ''label''])
             (Call (Name ''zip'') [meth ''axes'' ''ravel'' [], Name ''images'', Name ''titles''])
             [Expr (meth ''ax'' ''imshow'' [Name ''img'', StarStar (Name ''kwargs'')]),
              Expr (meth ''ax'' ''set_title'' [Name ''label''])]]"

text \<open>A call \<open>imshow_all(a, b, shape=(1, 2))\<close>, as four cells make it.\<close>

definition imshow_pair :: "string \<Rightarrow> string \<Rightarrow> stmt" where
  "imshow_pair a b =
     Expr (Call (Name ''imshow_all'')
             [Name a, Name b, Kw ''shape'' (Tuple [Num ''1'', Num ''2''])])"

definition filtering_nb :: "cell list" where
  "filtering_nb =
    [(371, [Magic ''%matplotlib inline'',
            Import [(''numpy'', Some ''np'')],
            Import [(''matplotlib.pyplot'', Some ''plt'')]]),
     (384, [FromImport ''skimage'' [''img_as_float''],
            imshow_all_def_stmt]),
     (450, [FromImport ''skimage'' [''data'', ''filters''],
            Assign (Name ''coins'') (meth ''data'' ''coins'' []),
            Assign (Name ''coins_zoom'')
                   (Subscript (Name ''coins'')
                      [Slice (Some (Num ''10'')) (Some (Num ''80'')),
                       Slice (Some (Num ''300'')) (Some (Num ''370''))]),
            plt_imshow [Name ''coins_zoom'', Kw ''cmap'' (Str ''gray'')]]),
     (473, [Assign (Name ''gaussian_coins'')
                   (meth ''filters'' ''gaussian'' [Name ''coins_zoom'', Num ''2'']),
            plt_imshow [Name ''gaussian_coins'', Kw ''cmap'' (Str ''gray'')]]),
     (483, [Assign (Name ''median_coins'')
                   (Call (Attr (Attr (Name ''filters'') ''rank'') ''median'')
                      [Name ''coins_zoom'', meth ''np'' ''ones'' [Tuple [Num ''3'', Num ''3'']]]),
            plt_imshow [Name ''median_coins'', Kw ''cmap'' (Str ''gray'')]]),
     (504, []),
     (524, [Assign (Subscript (Attr (Name ''plt'') ''rcParams'') [Str ''image.cmap''])
                   (Str ''cubehelix'')]),
     (533, [Assign (Name ''image'')
                   (meth ''np'' ''array''
                      [PyList
                         [PyList [Num ''0'', Num ''0'', Num ''0'', Num ''0'', Num ''0'', Num ''0'', Num ''0''],
                          PyList [Num ''0'', Num ''0'', Num ''0'', Num ''0'', Num ''0'', Num ''0'', Num ''0''],
                          PyList [Num ''0'', Num ''0'', Num ''1'', Num ''1'', Num ''1'', Num ''0'', Num ''0''],
                          PyList [Num ''0'', Num ''0'', Num ''1'', Num ''1'', Num ''1'', Num ''0'', Num ''0''],
                          PyList [Num ''0'', Num ''0'', Num ''1'', Num ''1'', Num ''1'', Num ''0'', Num ''0''],
                          PyList [Num ''0'', Num ''0'', Num ''0'', Num ''0'', Num ''0'', Num ''0'', Num ''0''],
                          PyList [Num ''0'', Num ''0'', Num ''0'', Num ''0'', Num ''0'', Num ''0'', Num ''0'']],
                       Kw ''dtype'' (Attr (Name ''np'') ''uint8'')]),
            plt_imshow [Name ''image'']]),
     (562, [FromImport ''skimage'' [''morphology''],
            Assign (Name ''sq'') (meth ''morphology'' ''square'' [Kw ''width'' (Num ''3'')]),
            Assign (Name ''dia'') (meth ''morphology'' ''diamond'' [Kw ''radius'' (Num ''1'')]),
            py_print [Str ''square:\<newline>'', Name ''sq''],
            py_print [Str ''diamond:\<newline>'', Name ''dia'']]),
     (584, [Assign (Name ''eroded'') (meth ''morphology'' ''erosion'' [Name ''image'', Name ''dia'']),
            imshow_pair ''image'' ''eroded'']),
     (594, [Assign (Name ''eroded_too_much'')
                   (meth ''morphology'' ''erosion''
                      [Name ''image'', meth ''morphology'' ''square'' [Num ''5'']]),
            imshow_pair ''image'' ''eroded_too_much'']),
     (604, [Assign (Name ''dil_dia'') (meth ''morphology'' ''dilation'' [Name ''eroded'', Name ''dia'']),
            imshow_pair ''eroded'' ''dil_dia'']),
     (614, [Assign (Name ''dil_sq'') (meth ''morphology'' ''dilation'' [Name ''eroded'', Name ''sq'']),
            imshow_pair ''eroded'' ''dil_sq'']),
     (637, [Assign (Name ''im'') (BinOp OpSub (meth ''data'' ''binary_blobs'' []) (Num ''0.5'')),
            AugAssign (Name ''im'') OpAdd
                      (BinOp OpMul (Num ''0.4'')
                         (Call (Attr (Attr (Name ''np'') ''random'') ''randn'')
                            [Star (Attr (Name ''im'') ''shape'')])),
            Assign (Name ''noisy_im'') (BinOp OpGt (Name ''im'') (Num ''0'')),
            plt_imshow [Name ''noisy_im'']]),
     (649, []),
     (674, [Assign (Subscript (Attr (Name ''plt'') ''rcParams'') [Str ''image.cmap''])
                   (Str ''viridis'')]),
     (692, [Assign (Name ''coins'') (meth ''data'' ''coins'' []),
            plt_imshow [Name ''coins'', Kw ''cmap'' (Str ''gray'')],
            py_print [meth ''filters'' ''threshold_otsu'' [Name ''coins'']],
            Assign (Name ''cs'')
                   (meth ''plt'' ''contour''
                      [Name ''coins'', PyList [Num ''30'', Num ''100'', Num ''150''],
                       Kw ''cmap'' (Str ''plasma'')]),
            Expr (meth ''plt'' ''colorbar'' [Name ''cs''])]),
     (705, [Assign (Name ''edges'') (meth ''filters'' ''sobel'' [Name ''coins'']),
            Assign (Name ''markers'') (meth ''np'' ''zeros_like'' [Name ''coins'']),
            Assign (Tuple [Name ''background'', Name ''foreground'']) (Tuple [Num ''1'', Num ''2'']),
            Assign (Subscript (Name ''markers'') [BinOp OpLt (Name ''coins'') (Num ''30.0'')])
                   (Name ''background''),
            Assign (Subscript (Name ''markers'') [BinOp OpGt (Name ''coins'') (Num ''150.0'')])
                   (Name ''foreground''),
            FromImport ''skimage'' [''segmentation''],
            Assign (Name ''ws'') (meth ''segmentation'' ''watershed'' [Name ''edges'', Name ''markers'']),
            Expr (meth ''plt'' ''figure'' [Kw ''figsize'' (Tuple [Num ''12'', Num ''4''])]),
            Expr (meth ''plt'' ''subplot'' [Num ''131'']),
            plt_imshow [Name ''markers''],
            Expr (meth ''plt'' ''title'' [Str ''Markers'']),
            Expr (meth ''plt'' ''axis'' [Str ''off'']),
            Expr (meth ''plt'' ''subplot'' [Num ''132'']),
            plt_imshow [Name ''edges''],
            Expr (meth ''plt'' ''title'' [Str ''Edges'']),
            Expr (meth ''plt'' ''axis'' [Str ''off'']),
            Expr (meth ''plt'' ''subplot'' [Num ''133'']),
            plt_imshow [Name ''ws''],
            Expr (meth ''plt'' ''title'' [Str ''Watershed segmentation'']),
            Expr (meth ''plt'' ''axis'' [Str ''off''])]),
     (758, [FromImport ''skimage'' [''util'', ''color''],
            Assign (Name ''grid'')
                   (meth ''util'' ''regular_grid''
                      [Attr (Name ''coins'') ''shape'', Kw ''n_points'' (Num ''100'')]),
            Assign (Name ''seeds'')
                   (meth ''np'' ''zeros'' [Attr (Name ''coins'') ''shape'', Kw ''dtype'' (Name ''int'')]),
            Assign (Subscript (Name ''seeds'') [Name ''grid''])
                   (BinOp OpAdd
                      (Call (Attr (meth ''np'' ''arange''
                                     [Attr (Subscript (Name ''seeds'') [Name ''grid'']) ''size''])
                                  ''reshape'')
                         [Attr (Subscript (Name ''seeds'') [Name ''grid'']) ''shape''])
                      (Num ''1'')),
            Assign (Name ''ws_seeds'')
                   (meth ''segmentation'' ''watershed''
                      [Name ''edges'', Name ''seeds'', Kw ''compactness'' (Num ''0.01'')]),
            Assign (Tuple [Name ''fig'', Tuple [Name ''ax0'', Name ''ax1'']])
                   (meth ''plt'' ''subplots''
                      [Num ''1'', Num ''2'', Kw ''figsize'' (Tuple [Num ''10'', Num ''4''])]),
            Expr (meth ''ax0'' ''imshow'' [Name ''coins'', Kw ''cmap'' (Str ''gray'')]),
            Expr (meth ''ax0'' ''contour''
                    [BinOp OpGt (Name ''seeds'') (Num ''0''), Kw ''colors'' (Str ''y''),
                     Kw ''linewidths'' (Num ''4'')]),
            Expr (meth ''ax0'' ''set_title'' [Str ''Image with seeds'']),
            Expr (meth ''ax1'' ''imshow''
                    [meth ''color'' ''label2rgb'' [Name ''ws_seeds'', Name ''coins'']]),
            Expr (meth ''ax1'' ''set_title'' [Str ''Compact watershed''])]),
     (798, [plt_imshow [Name ''ws'']]),
     (807, [FromImport ''skimage'' [''measure''],
            Assign (Name ''labels'') (meth ''measure'' ''label'' [Name ''ws'']),
            plt_imshow [Name ''labels''],
            py_print [Str ''number of coins:'', meth ''labels'' ''max'' []]]),
     (819, [plt_imshow [BinOp OpEq (Name ''labels'') (Num ''10'')]]),
     (828, [Assign (Name ''properties'')
                   (meth ''measure'' ''regionprops'' [Name ''labels'', Name ''coins'']),
            py_print [Name ''properties''],
            py_print [Call (Name ''dir'') [Subscript (Name ''properties'') [Num ''0'']]]]),
     (839, [Assign (Name ''areas'')
                   (ListComp (Attr (Name ''prop'') ''area'') (Name ''prop'') (Name ''properties'')),
            py_print [Str ''areas:'', Name ''areas''],
            Assign (Name ''mean_intensities'')
                   (ListComp (Attr (Name ''prop'') ''mean_intensity'') (Name ''prop'')
                      (Name ''properties'')),
            py_print [Str ''mean intensities:'', Name ''mean_intensities'']]),
     (879, [FromImport ''skimage'' [''feature''],
            Assign (Name ''canny'') (meth ''feature'' ''canny'' [Name ''coins'']),
            plt_imshow [Name ''canny'']]),
     (890, [Assign (Name ''sobel'') (meth ''filters'' ''sobel'' [Name ''coins'']),
            plt_imshow [Name ''sobel''],
            Expr (meth ''plt'' ''colorbar'' [])]),
     (901, [plt_imshow [BinOp OpGt (Name ''sobel'') (Num ''0.15'')]]),
     (910, [Assign (Name ''text'') (meth ''data'' ''text'' []),
            Assign (Name ''coords'')
                   (meth ''feature'' ''corner_peaks''
                      [meth ''feature'' ''corner_harris'' [Name ''text''],
                       Kw ''min_distance'' (Num ''3'')]),
            plt_imshow [Name ''text'', Kw ''cmap'' (Str ''gray'')],
            Expr (meth ''plt'' ''plot''
                    [Subscript (Name ''coords'') [Slice None None, Num ''1''],
                     Subscript (Name ''coords'') [Slice None None, Num ''0''],
                     Str ''+r''])])]"

text \<open>The code cells of the repository.\<close>

definition all_cells :: "cell list" where
  "all_cells = arrays_nb @ visualization_nb @ filtering_nb"



section \<open>Names read and bound\<close>

text \<open>The names an assignment to \<open>target\<close> binds: \<open>x = ...\<close>, \<open>fig, (ax0, ax1) = ...\<close>.\<close>

fun target_names :: "expr \<Rightarrow> string list" where
  "target_names (Name x) = [x]"
| "target_names (Tuple ts) = concat (map target_names ts)"
| "target_names (PyList ts) = concat (map target_names ts)"
| "target_names _ = []"

text \<open>
  The names an expression reads, in the order Python evaluates it. The variable of a
  comprehension or generator is local to it.
\<close>

fun reads :: "expr \<Rightarrow> string list" where
  "reads (Name x) = [x]"
| "reads (Num _) = []"
| "reads (Str _) = []"
| "reads (Attr e _) = reads e"
| "reads (Call f args) = reads f @ concat (map reads args)"
| "reads (Kw _ e) = reads e"
| "reads (Star e) = reads e"
| "reads (StarStar e) = reads e"
| "reads (Subscript e idx) = reads e @ concat (map reads idx)"
| "reads (Slice lo hi) =
     (case lo of None \<Rightarrow> [] | Some e \<Rightarrow> reads e) @ (case hi of None \<Rightarrow> [] | Some e \<Rightarrow> reads e)"
| "reads (BinOp _ a b) = reads a @ reads b"
| "reads (Tuple es) = concat (map reads es)"
| "reads (PyList es) = concat (map reads es)"
| "reads (ListComp e x it) = reads it @ filter (\<lambda>n. n \<notin> set (target_names x)) (reads e)"
| "reads (GenExp e x it) = reads it @ filter (\<lambda>n. n \<notin> set (target_names x)) (reads e)"

text \<open>
  The names read when a value is stored into \<open>target\<close>: none for a plain name, the
  container and the index for \<open>a[i] = ...\<close>, the object for \<open>a.x = ...\<close>.
\<close>

fun target_reads :: "expr \<Rightarrow> string list" where
  "target_reads (Name x) = []"
| "target_reads (Tuple ts) = concat (map target_reads ts)"
| "target_reads (PyList ts) = concat (map target_reads ts)"
| "target_reads e = reads e"

text \<open>\<open>import a.b\<close> binds \<open>a\<close>; \<open>import a.b as c\<close> binds \<open>c\<close>.\<close>

definition import_name :: "string \<times> string option \<Rightarrow> string" where
  "import_name m = (case snd m of Some a \<Rightarrow> a | None \<Rightarrow> takeWhile (\<lambda>c. c \<noteq> CHR ''.'') (fst m))"

text \<open>The names a statement binds (may bind, for a compound statement).\<close>

fun binds :: "stmt \<Rightarrow> string list" where
  "binds (Magic _) = []"
| "binds (Import ms) = map import_name ms"
| "binds (FromImport _ ns) = ns"
| "binds (Assign t _) = target_names t"
| "binds (AugAssign t _ _) = target_names t"
| "binds (Expr _) = []"
| "binds (Doc _) = []"
| "binds (Def f _ _) = [f]"
| "binds (IfS _ a b) = concat (map binds a) @ concat (map binds b)"
| "binds (ForS t _ body) = target_names t @ concat (map binds body)"
| "binds (TryS a b) = concat (map binds a) @ concat (map binds b)"

text \<open>
  The names a statement has bound for sure once it has run: an \<open>if\<close> runs one of its
  branches, a loop may run no iteration, the body of a \<open>try\<close> may raise before it binds.
\<close>

fun must_binds :: "stmt \<Rightarrow> string list" where
  "must_binds (IfS _ a b) =
     filter (\<lambda>n. n \<in> set (concat (map must_binds b))) (concat (map must_binds a))"
| "must_binds (ForS _ _ _) = []"
| "must_binds (TryS _ _) = []"
| "must_binds s = binds s"

definition unbound :: "string list \<Rightarrow> string list \<Rightarrow> string list" where
  "unbound B ns = filter (\<lambda>n. n \<notin> set B) ns"

text \<open>The calls an expression makes, callee and arguments, innermost first.\<close>

fun calls :: "expr \<Rightarrow> (expr \<times> expr list) list" where
  "calls (Name x) = []"
| "calls (Num n) = []"
| "calls (Str s) = []"
| "calls (Attr e a) = calls e"
| "calls (Call f args) = calls f @ concat (map calls args) @ [(f, args)]"
| "calls (Kw k e) = calls e"
| "calls (Star e) = calls e"
| "calls (StarStar e) = calls e"
| "calls (Subscript e idx) = calls e @ concat (map calls idx)"
| "calls (Slice lo hi) =
     (case lo of None \<Rightarrow> [] | Some e \<Rightarrow> calls e) @ (case hi of None \<Rightarrow> [] | Some e \<Rightarrow> calls e)"
| "calls (BinOp op a b) = calls a @ calls b"
| "calls (Tuple es) = concat (map calls es)"
| "calls (PyList es) = concat (map calls es)"
| "calls (ListComp e x it) = calls it @ calls e"
| "calls (GenExp e x it) = calls it @ calls e"

text \<open>The expressions a statement evaluates; for a compound statement, those of its body too.\<close>

fun stmt_exprs :: "stmt \<Rightarrow> expr list" where
  "stmt_exprs (Assign t v) = [v, t]"
| "stmt_exprs (AugAssign t _ v) = [t, v]"
| "stmt_exprs (Expr e) = [e]"
| "stmt_exprs (Def _ _ body) = concat (map stmt_exprs body)"
| "stmt_exprs (IfS c a b) = c # concat (map stmt_exprs a) @ concat (map stmt_exprs b)"
| "stmt_exprs (ForS t it body) = it # t # concat (map stmt_exprs body)"
| "stmt_exprs (TryS a b) = concat (map stmt_exprs a) @ concat (map stmt_exprs b)"
| "stmt_exprs _ = []"

subsection \<open>Which branch a test takes\<close>

text \<open>
  A name is read only if the statement that reads it runs, so the branch an \<open>if\<close> takes
  matters. Two things are tracked to decide the tests that compare a name with a
  string (\<open>limits == 'image'\<close>).
  \<^item> \<open>known_strings\<close>: the names known to hold a string, with that string, the latest first.
  \<^item> \<open>call_keywords\<close>, inside a function called with keyword arguments: the name of its \<open>**\<close>
    parameter and what its dictionary holds, the keywords the call passed with their
    values as written. It is \<open>None\<close> when that is not known: when the call passes a
    dictionary with \<open>**\<close>, and from the first statement on that does anything with the
    dictionary but look a key up with \<open>pop\<close> or \<open>get\<close>. Neither adds a key, and \<open>pop\<close>
    removes the one it looks up.
\<close>

type_synonym known_strings = "(string \<times> string) list"

type_synonym call_keywords = "(string \<times> (string \<times> expr) list) option"

definition str_of :: "expr \<Rightarrow> string option" where
  "str_of e = (case e of Str v \<Rightarrow> Some v | _ \<Rightarrow> None)"

definition name_of :: "expr \<Rightarrow> string option" where
  "name_of e = (case e of Name x \<Rightarrow> Some x | _ \<Rightarrow> None)"

definition is_lookup :: "string \<Rightarrow> expr \<Rightarrow> bool" where
  \<comment> \<open>the callee is \<open>d.pop\<close> or \<open>d.get\<close>\<close>
  "is_lookup d f = (f = Attr (Name d) ''pop'' \<or> f = Attr (Name d) ''get'')"

text \<open>
  The string that \<open>d.pop(key, default)\<close> or \<open>d.get(key, default)\<close> returns, when it is
  known: the value passed for \<open>key\<close> when the dictionary holds it, \<open>default\<close> when it does
  not, if that is a string literal.
\<close>

definition looked_up :: "call_keywords \<Rightarrow> expr \<Rightarrow> string option" where
  "looked_up ctx e =
     (case ctx of
        None \<Rightarrow> None
      | Some (d, ks) \<Rightarrow>
          (case e of
             Call f args \<Rightarrow>
               (if is_lookup d f then
                  (case args of
                     [k, v] \<Rightarrow>
                       (case str_of k of
                          None \<Rightarrow> None
                        | Some key \<Rightarrow>
                            (case map_of ks key of
                               None \<Rightarrow> str_of v
                             | Some passed \<Rightarrow> str_of passed))
                   | _ \<Rightarrow> None)
                else None)
           | _ \<Rightarrow> None))"

text \<open>The string an expression is known to evaluate to: a literal, or a value looked up.\<close>

definition const_value :: "call_keywords \<Rightarrow> expr \<Rightarrow> string option" where
  "const_value ctx e = (case str_of e of Some v \<Rightarrow> Some v | None \<Rightarrow> looked_up ctx e)"

definition forget :: "string list \<Rightarrow> known_strings \<Rightarrow> known_strings" where
  "forget ns K = filter (\<lambda>(n, v). n \<notin> set ns) K"

text \<open>What is known after a statement: a name it binds is forgotten, or learnt anew.\<close>

fun learn :: "call_keywords \<Rightarrow> known_strings \<Rightarrow> stmt \<Rightarrow> known_strings" where
  "learn ctx K (Assign t v) =
     (case (name_of t, const_value ctx v) of
        (Some x, Some c) \<Rightarrow> (x, c) # K
      | _ \<Rightarrow> forget (target_names t) K)"
| "learn ctx K s = forget (binds s) K"

text \<open>
  What the dictionary holds after a statement. A statement that does not name the
  dictionary leaves it. An assignment or expression statement that names it only as
  the receiver of \<open>pop\<close> and \<open>get\<close> calls, the keys popped being string literals, removes
  the keys popped. After any other statement that names it, and after a compound
  statement that names it (whose branches may or may not run), nothing is known.
\<close>

fun compound :: "stmt \<Rightarrow> bool" where
  "compound (Def _ _ _) = True"
| "compound (IfS _ _ _) = True"
| "compound (ForS _ _ _) = True"
| "compound (TryS _ _) = True"
| "compound _ = False"

definition popped_keys :: "string \<Rightarrow> stmt \<Rightarrow> string list option" where
  "popped_keys d s =
     those (map (\<lambda>(f, args). case args of [] \<Rightarrow> None | k # _ \<Rightarrow> str_of k)
                (filter (\<lambda>(f, args). f = Attr (Name d) ''pop'') (concat (map calls (stmt_exprs s)))))"

definition keywords_after :: "call_keywords \<Rightarrow> stmt \<Rightarrow> call_keywords" where
  "keywords_after ctx s =
     (case ctx of
        None \<Rightarrow> None
      | Some (d, ks) \<Rightarrow>
          if d \<in> set (binds s) then None
          else if d \<in> set (concat (map reads (stmt_exprs s))) then
            (if compound s then None
             else if length (filter (\<lambda>n. n = d) (concat (map reads (stmt_exprs s)))) =
                     length (filter (\<lambda>(f, args). is_lookup d f) (concat (map calls (stmt_exprs s))))
             then (case popped_keys d s of
                     None \<Rightarrow> None
                   | Some ps \<Rightarrow> Some (d, filter (\<lambda>(k, v). k \<notin> set ps) ks))
             else None)
          else ctx)"

text \<open>
  The outcome of a test \<open>x == 'v'\<close> or \<open>x != 'v'\<close> on a name known to hold a string; \<open>None\<close>
  for a test that is not decided.
\<close>

definition decide :: "known_strings \<Rightarrow> expr \<Rightarrow> bool option" where
  "decide K c =
     (case c of
        BinOp op a b \<Rightarrow>
          (case (name_of a, str_of b) of
             (Some x, Some v) \<Rightarrow>
               (case map_of K x of
                  None \<Rightarrow> None
                | Some w \<Rightarrow>
                    if op = OpEq then Some (w = v)
                    else if op = OpNe then Some (w \<noteq> v)
                    else None)
           | _ \<Rightarrow> None)
      | _ \<Rightarrow> None)"

subsection \<open>Names read while unbound\<close>

text \<open>
  The names a statement may read that are not among \<open>B\<close>, the names bound for sure so
  far. The right side of an assignment is evaluated before its target; an augmented
  assignment reads its target first. A \<open>def\<close> reads nothing when it runs: its body reads
  when the function is called. An \<open>if\<close> whose test is decided reads in the branch taken
  only; one whose test is not decided may read in either branch. In a loop body and in
  a handler nothing is taken as known.
\<close>

fun free_stmt :: "call_keywords \<Rightarrow> known_strings \<Rightarrow> string list \<Rightarrow> stmt \<Rightarrow> string list"
  and free_block :: "call_keywords \<Rightarrow> known_strings \<Rightarrow> string list \<Rightarrow> stmt list \<Rightarrow> string list" where
  "free_stmt ctx K B (Magic _) = []"
| "free_stmt ctx K B (Import _) = []"
| "free_stmt ctx K B (FromImport _ _) = []"
| "free_stmt ctx K B (Assign t v) = unbound B (reads v @ target_reads t)"
| "free_stmt ctx K B (AugAssign t _ v) = unbound B (reads t @ reads v)"
| "free_stmt ctx K B (Expr e) = unbound B (reads e)"
| "free_stmt ctx K B (Doc _) = []"
| "free_stmt ctx K B (Def _ _ _) = []"
| "free_stmt ctx K B (IfS c a b) =
     unbound B (reads c) @
     (case decide K c of
        None \<Rightarrow> free_block ctx K B a @ free_block ctx K B b
      | Some taken \<Rightarrow> if taken then free_block ctx K B a else free_block ctx K B b)"
| "free_stmt ctx K B (ForS t it body) =
     unbound B (reads it) @
     free_block None (forget (target_names t @ concat (map binds body)) K) (B @ target_names t) body"
| "free_stmt ctx K B (TryS a b) =
     free_block ctx K B a @ free_block None (forget (concat (map binds a)) K) B b"
| "free_block ctx K B [] = []"
| "free_block ctx K B (s # ss) =
     free_stmt ctx K B s @ free_block (keywords_after ctx s) (learn ctx K s) (B @ must_binds s) ss"

text \<open>
  What a cell reads from the namespace it is run in (names its own statements read and
  it has not bound itself before the read), in the order it reads them, and what it
  writes to that namespace.
\<close>

definition cell_reads :: "cell \<Rightarrow> string list" where
  "cell_reads c = free_block None [] [] (snd c)"

definition cell_binds :: "cell \<Rightarrow> string list" where
  "cell_binds c = remdups (concat (map binds (snd c)))"

text \<open>The built-in functions of Python 3, which every namespace starts with.\<close>

definition builtins :: "string list" where
  "builtins =
     [''abs'', ''all'', ''any'', ''ascii'', ''bin'', ''bool'', ''bytearray'', ''bytes'',
      ''callable'', ''chr'', ''classmethod'', ''compile'', ''complex'', ''delattr'', ''dict'',
      ''dir'', ''divmod'', ''enumerate'', ''eval'', ''exec'', ''filter'', ''float'', ''format'',
      ''frozenset'', ''getattr'', ''globals'', ''hasattr'', ''hash'', ''help'', ''hex'', ''id'',
      ''input'', ''int'', ''isinstance'', ''issubclass'', ''iter'', ''len'', ''list'', ''locals'',
      ''map'', ''max'', ''memoryview'', ''min'', ''next'', ''object'', ''oct'', ''open'', ''ord'',
      ''pow'', ''print'', ''property'', ''range'', ''repr'', ''reversed'', ''round'', ''set'',
      ''setattr'', ''slice'', ''sorted'', ''staticmethod'', ''str'', ''sum'', ''super'', ''tuple'',
      ''type'', ''vars'', ''zip'', ''__import__'']"

subsection \<open>Calls of the notebook's own functions\<close>

text \<open>
  The functions defined so far, the latest first: name, parameters, body. A statement
  that binds the name to something else removes the function.
\<close>

type_synonym local_funs = "(string \<times> string list \<times> stmt list) list"

fun defs_in :: "stmt \<Rightarrow> local_funs" where
  "defs_in (Def f ps body) = [(f, ps, body)]"
| "defs_in (IfS _ a b) = concat (map defs_in a) @ concat (map defs_in b)"
| "defs_in (ForS _ _ body) = concat (map defs_in body)"
| "defs_in (TryS a b) = concat (map defs_in a) @ concat (map defs_in b)"
| "defs_in _ = []"

definition add_defs :: "local_funs \<Rightarrow> stmt \<Rightarrow> local_funs" where
  "add_defs F s = defs_in s @ filter (\<lambda>(n, d). n \<notin> set (binds s)) F"

text \<open>
  The expressions a statement evaluates when it runs. The body of a \<open>def\<close> is not among
  them: it is evaluated when the function is called.
\<close>

fun run_exprs :: "stmt \<Rightarrow> expr list" where
  "run_exprs (Def _ _ _) = []"
| "run_exprs (IfS c a b) = c # concat (map run_exprs a) @ concat (map run_exprs b)"
| "run_exprs (ForS t it body) = it # t # concat (map run_exprs body)"
| "run_exprs (TryS a b) = concat (map run_exprs a) @ concat (map run_exprs b)"
| "run_exprs s = stmt_exprs s"

definition param_name :: "string \<Rightarrow> string" where
  "param_name p = dropWhile (\<lambda>c. c = CHR ''*'') p"

text \<open>
  The keyword arguments a call passes, with their values as written, when the argument
  list says so: no \<open>**d\<close> among the arguments.
\<close>

definition keyword_args :: "expr list \<Rightarrow> (string \<times> expr) list option" where
  "keyword_args args =
     (if list_ex (\<lambda>a. case a of StarStar _ \<Rightarrow> True | _ \<Rightarrow> False) args then None
      else Some (concat (map (\<lambda>a. case a of Kw k v \<Rightarrow> [(k, v)] | _ \<Rightarrow> []) args)))"

text \<open>
  The names that a call may read while unbound inside the function it calls, \<open>B\<close>
  being the global names bound at the time of the call. In the body a name is local if
  it is a parameter or assigned anywhere in the body, and global otherwise: a local
  name is bound once a statement of the body has bound it, the parameters from the
  start; a global name is bound if it is in \<open>B\<close>. The dictionary of the \<open>**\<close> parameter
  holds the keyword arguments that name no parameter. A call of anything that is not a
  function of the notebook reads nothing here: what a library function reads is the
  library's. A function is called by the name its \<open>def\<close> bound, and calls of the
  notebook's functions made inside a body are not followed.
\<close>

definition call_unbound :: "string list \<Rightarrow> local_funs \<Rightarrow> expr \<times> expr list \<Rightarrow> string list" where
  "call_unbound B F c =
     (case name_of (fst c) of
        None \<Rightarrow> []
      | Some f \<Rightarrow>
          (case map_of F f of
             None \<Rightarrow> []
           | Some (ps, body) \<Rightarrow>
               (let params = map param_name ps;
                    locals = params @ concat (map binds body);
                    ctx = (case (filter (\<lambda>p. take 2 p = ''**'') ps, keyword_args (snd c)) of
                             ([d], Some ks) \<Rightarrow>
                               Some (param_name d, filter (\<lambda>(k, v). k \<notin> set params) ks)
                           | _ \<Rightarrow> None)
                in free_block ctx [] (params @ unbound locals B) body)))"

text \<open>
  The names the statements of a cell may read while unbound, run in order from the
  bound names \<open>B\<close> and the functions \<open>F\<close>: those of the statement itself, then those read
  inside the functions of the notebook it calls.
\<close>

fun block_unbound :: "string list \<Rightarrow> local_funs \<Rightarrow> stmt list \<Rightarrow> string list" where
  "block_unbound B F [] = []"
| "block_unbound B F (s # ss) =
     free_stmt None [] B s @
     concat (map (call_unbound B F) (concat (map calls (run_exprs s)))) @
     block_unbound (B @ must_binds s) (add_defs F s) ss"

text \<open>
  Running a notebook from a fresh kernel, top to bottom. \<open>Inr B\<close>: no cell reads a name
  that nothing has bound yet, in its own statements or inside a function of the
  notebook that it calls, whichever branch the tests that are not decided take; the run
  ends with the names \<open>B\<close> bound. \<open>Inl (NameError n)\<close>: \<open>n\<close> is the first name that a cell
  may read while unbound. In straight-line code every statement runs, so there a name
  that may be read unbound is read unbound, and the run stops with that NameError.
\<close>

fun run_from :: "string list \<Rightarrow> local_funs \<Rightarrow> cell list \<Rightarrow> error + string list" where
  "run_from B F [] = Inr B"
| "run_from B F (c # cs) =
     (case block_unbound B F (snd c) of
        [] \<Rightarrow> run_from (B @ remdups (concat (map must_binds (snd c))))
                       (fold (\<lambda>s F. add_defs F s) (snd c) F) cs
      | n # _ \<Rightarrow> Inl (NameError n))"

definition run_names :: "string list \<Rightarrow> cell list \<Rightarrow> error + string list" where
  "run_names B nb = run_from B [] nb"

text \<open>Every name a notebook can have bound, whatever the order its cells are run in.\<close>

definition namespace :: "cell list \<Rightarrow> string list" where
  "namespace nb = builtins @ concat (map cell_binds nb)"

text \<open>
  The global names a function may read when called, on any path through its body: the
  names its body reads that are neither parameters nor assigned anywhere in the body.
\<close>

fun def_globals :: "stmt \<Rightarrow> string list" where
  "def_globals (Def f ps body) =
     remdups (unbound (map param_name ps @ concat (map binds body)) (free_block None [] [] body))"
| "def_globals _ = []"

text \<open>
  A cell that runs on its own: it reads no name but built-ins and names it has bound
  itself, so it does the same whether or not any other cell has run.
\<close>

definition runs_alone :: "cell \<Rightarrow> bool" where
  "runs_alone c = (unbound builtins (cell_reads c) = [])"

section \<open>Writes into existing objects\<close>

text \<open>
  How a statement of the notebooks can change an object that exists already, rather
  than bind a name to a new one: a subscript assignment \<open>a[i] = v\<close> changes the container
  \<open>a\<close>; an attribute assignment \<open>a.x = v\<close> changes the object \<open>a\<close>; an augmented assignment
  \<open>a += v\<close> changes \<open>a\<close> in place when \<open>a\<close> is an array; a call of a method that modifies
  its receiver changes the receiver.
\<close>

datatype write_kind = SubscriptStore | AttributeStore | Augmented | MethodCall string

text \<open>
  The methods of Python's \<open>list\<close>, \<open>dict\<close> and \<open>set\<close> and of numpy's \<open>ndarray\<close> that modify
  the object they are called on (from the documentation of Python and of numpy). What
  a function of a library does to the objects passed to it, and to the figures it
  draws on, is the library's and is not listed.
\<close>

definition mutating_methods :: "string list" where
  "mutating_methods =
     [''append'', ''clear'', ''extend'', ''insert'', ''pop'', ''popitem'', ''remove'', ''reverse'',
      ''setdefault'', ''sort'', ''update'', ''add'', ''discard'', ''difference_update'',
      ''intersection_update'', ''symmetric_difference_update'',
      ''fill'', ''itemset'', ''partition'', ''put'', ''resize'', ''setfield'', ''setflags'',
      ''byteswap'']"

text \<open>
  The names the code binds to Python numbers. A number is immutable: an augmented
  assignment to such a name binds the name to a new number and changes no object.
  \<^item> \<open>background, foreground = 1, 2\<close> (line 707);
  \<^item> in \<open>imshow_all\<close>: \<open>nrows\<close> and \<open>ncols\<close>, the two parts of \<open>shape\<close>, which \<open>plt.subplots\<close>
    takes as numbers of rows and columns; \<open>size = nrows * kwargs.pop('size', 5)\<close> and
    \<open>width = size * len(images)\<close>, which it takes as \<open>figsize=(width, size)\<close>, a pair of
    numbers.
\<close>

definition number_names :: "string list" where
  "number_names = [''background'', ''foreground'', ''nrows'', ''ncols'', ''size'', ''width'']"

definition rebinds_number :: "expr \<Rightarrow> bool" where
  "rebinds_number t = (case t of Name x \<Rightarrow> x \<in> set number_names | _ \<Rightarrow> False)"

fun store_targets :: "expr \<Rightarrow> (write_kind \<times> expr) list" where
  "store_targets (Subscript e _) = [(SubscriptStore, e)]"
| "store_targets (Attr e _) = [(AttributeStore, e)]"
| "store_targets (Tuple ts) = concat (map store_targets ts)"
| "store_targets (PyList ts) = concat (map store_targets ts)"
| "store_targets _ = []"

text \<open>The receivers of the modifying method calls an expression makes, innermost first.\<close>

definition method_writes :: "expr \<Rightarrow> (write_kind \<times> expr) list" where
  "method_writes e =
     concat (map (\<lambda>(f, args).
                    case f of
                      Attr r m \<Rightarrow> if m \<in> set mutating_methods then [(MethodCall m, r)] else []
                    | _ \<Rightarrow> [])
                 (calls e))"

text \<open>
  The objects a statement writes into, with the way it does, in the order of the
  source. Statements nested in a \<open>def\<close>, \<open>if\<close>, \<open>for\<close> or \<open>try\<close> count.
\<close>

fun stores :: "stmt \<Rightarrow> (write_kind \<times> expr) list" where
  "stores (Assign t v) = method_writes v @ method_writes t @ store_targets t"
| "stores (AugAssign t _ v) =
     method_writes t @ method_writes v @ (if rebinds_number t then [] else [(Augmented, t)])"
| "stores (Expr e) = method_writes e"
| "stores (Def _ _ body) = concat (map stores body)"
| "stores (IfS c a b) = method_writes c @ concat (map stores a) @ concat (map stores b)"
| "stores (ForS t it body) = method_writes it @ store_targets t @ concat (map stores body)"
| "stores (TryS a b) = concat (map stores a) @ concat (map stores b)"
| "stores _ = []"

definition cell_stores :: "cell \<Rightarrow> (nat \<times> write_kind \<times> expr) list" where
  "cell_stores c = map (\<lambda>w. (fst c, w)) (concat (map stores (snd c)))"

definition notebook_stores :: "cell list \<Rightarrow> (nat \<times> write_kind \<times> expr) list" where
  "notebook_stores nb = concat (map cell_stores nb)"

text \<open>The names of the objects a notebook writes into.\<close>

definition written_names :: "cell list \<Rightarrow> string list" where
  "written_names nb = remdups (concat (map (\<lambda>(line, w, e). reads e) (notebook_stores nb)))"

text \<open>
  The names the notebooks bind to derived entities: boolean masks (\<open>mask_bg\<close>,
  \<open>noisy_im\<close>), label maps (\<open>superpixels\<close>, \<open>markers\<close>, \<open>ws\<close>, \<open>seeds\<close>, \<open>ws_seeds\<close>, \<open>labels\<close>),
  coordinate lists (\<open>coords\<close>, \<open>c_rr\<close>, \<open>c_cc\<close>, \<open>grid\<close>) and region-property records
  (\<open>properties\<close>).
\<close>

definition derived_entities :: "string list" where
  "derived_entities =
     [''mask_bg'', ''noisy_im'', ''superpixels'', ''markers'', ''ws'', ''seeds'', ''ws_seeds'',
      ''labels'', ''coords'', ''c_rr'', ''c_cc'', ''grid'', ''properties'']"

section \<open>Local code\<close>

text \<open>
  The constructs that make code of the repository's own, rather than a call into a
  library: a function definition, a conditional, a \<open>for\<close> loop, a handler, and the two
  loops written as expressions, the list comprehension and the generator expression.
\<close>

datatype construct = FunctionDef | Conditional | ForLoop | Handler | Comprehension | Generator

text \<open>The constructs of an expression, at any depth, in the order of the source.\<close>

fun expr_constructs :: "expr \<Rightarrow> construct list" where
  "expr_constructs (Name x) = []"
| "expr_constructs (Num n) = []"
| "expr_constructs (Str s) = []"
| "expr_constructs (Attr e a) = expr_constructs e"
| "expr_constructs (Call f args) = expr_constructs f @ concat (map expr_constructs args)"
| "expr_constructs (Kw k e) = expr_constructs e"
| "expr_constructs (Star e) = expr_constructs e"
| "expr_constructs (StarStar e) = expr_constructs e"
| "expr_constructs (Subscript e idx) = expr_constructs e @ concat (map expr_constructs idx)"
| "expr_constructs (Slice lo hi) =
     (case lo of None \<Rightarrow> [] | Some e \<Rightarrow> expr_constructs e) @
     (case hi of None \<Rightarrow> [] | Some e \<Rightarrow> expr_constructs e)"
| "expr_constructs (BinOp op a b) = expr_constructs a @ expr_constructs b"
| "expr_constructs (Tuple es) = concat (map expr_constructs es)"
| "expr_constructs (PyList es) = concat (map expr_constructs es)"
| "expr_constructs (ListComp e x it) = Comprehension # expr_constructs e @ expr_constructs it"
| "expr_constructs (GenExp e x it) = Generator # expr_constructs e @ expr_constructs it"

text \<open>
  The constructs of a statement, at any depth, in the order of the source; an \<open>elif\<close> is
  a conditional in the \<open>else\<close> branch of another.
\<close>

fun constructs :: "stmt \<Rightarrow> construct list" where
  "constructs (Assign t v) = expr_constructs t @ expr_constructs v"
| "constructs (AugAssign t _ v) = expr_constructs t @ expr_constructs v"
| "constructs (Expr e) = expr_constructs e"
| "constructs (Def _ _ body) = FunctionDef # concat (map constructs body)"
| "constructs (IfS c a b) =
     Conditional # expr_constructs c @ concat (map constructs a) @ concat (map constructs b)"
| "constructs (ForS t it body) =
     ForLoop # expr_constructs t @ expr_constructs it @ concat (map constructs body)"
| "constructs (TryS a b) = Handler # concat (map constructs a) @ concat (map constructs b)"
| "constructs _ = []"

text \<open>
  A straight-line statement: an import, an assignment or an expression statement over
  names, literals, attributes, subscripts, operators and calls, with none of the
  constructs above in it.
\<close>

definition straight_line :: "stmt \<Rightarrow> bool" where
  "straight_line s = (constructs s = [])"

text \<open>The functions a statement defines, at any depth, and those the repository defines.\<close>

fun local_defs :: "stmt \<Rightarrow> string list" where
  "local_defs (Def f _ body) = f # concat (map local_defs body)"
| "local_defs (IfS _ a b) = concat (map local_defs a) @ concat (map local_defs b)"
| "local_defs (ForS _ _ body) = concat (map local_defs body)"
| "local_defs (TryS a b) = concat (map local_defs a) @ concat (map local_defs b)"
| "local_defs _ = []"

definition local_functions :: "string list" where
  "local_functions = concat (map local_defs (concat (map snd all_cells)))"

text \<open>The functions of the repository that the statements of a cell call when they run.\<close>

definition local_calls :: "cell \<Rightarrow> string list" where
  "local_calls c =
     concat (map (\<lambda>(f, args).
                    case name_of f of
                      None \<Rightarrow> []
                    | Some n \<Rightarrow> if n \<in> set local_functions then [n] else [])
                 (concat (map calls (concat (map run_exprs (snd c))))))"

text \<open>
  A cell that is library calls only: every statement is straight-line, and no call is
  to a function the repository defines.
\<close>

definition library_calls_only :: "cell \<Rightarrow> bool" where
  "library_calls_only c = (list_all straight_line (snd c) \<and> local_calls c = [])"

text \<open>The cells whose statements read the name \<open>f\<close>: the callers of a local function.\<close>

definition cells_reading :: "string \<Rightarrow> cell list \<Rightarrow> nat list" where
  "cells_reading f nb = map fst (filter (\<lambda>c. f \<in> set (cell_reads c)) nb)"

section \<open>File-system calls\<close>

text \<open>
  Where a value comes from: \<open>env\<close> lists the bindings made so far, the latest first, each
  a name and the expression bound to it as written. A module bound by
  \<open>import numpy as np\<close> is \<open>Name ''numpy''\<close>, a name bound by \<open>from skimage import io\<close> is
  \<open>skimage.io\<close>. Resolving an expression replaces its names by what they were bound
  to, binding by binding from the latest to the earliest, so that a name inside a bound
  expression is replaced by what it was bound to before.
\<close>

type_synonym env = "(string \<times> expr) list"

fun subst :: "string \<Rightarrow> expr \<Rightarrow> expr \<Rightarrow> expr" where
  "subst x v (Name y) = (if y = x then v else Name y)"
| "subst x v (Num n) = Num n"
| "subst x v (Str s) = Str s"
| "subst x v (Attr e a) = Attr (subst x v e) a"
| "subst x v (Call f args) = Call (subst x v f) (map (subst x v) args)"
| "subst x v (Kw k e) = Kw k (subst x v e)"
| "subst x v (Star e) = Star (subst x v e)"
| "subst x v (StarStar e) = StarStar (subst x v e)"
| "subst x v (Subscript e idx) = Subscript (subst x v e) (map (subst x v) idx)"
| "subst x v (Slice lo hi) = Slice (map_option (subst x v) lo) (map_option (subst x v) hi)"
| "subst x v (BinOp op a b) = BinOp op (subst x v a) (subst x v b)"
| "subst x v (Tuple es) = Tuple (map (subst x v) es)"
| "subst x v (PyList es) = PyList (map (subst x v) es)"
| "subst x v (ListComp e y it) = ListComp e y (subst x v it)"
| "subst x v (GenExp e y it) = GenExp e y (subst x v it)"

fun resolve :: "env \<Rightarrow> expr \<Rightarrow> expr" where
  "resolve [] e = e"
| "resolve ((x, v) # env) e = resolve env (subst x v e)"

text \<open>
  The bindings a target makes to a value \<open>v\<close>: \<open>x = v\<close> binds \<open>x\<close> to \<open>v\<close>; unpacking
  \<open>a, b = v\<close> binds each name to an element of \<open>v\<close>, written \<open>v[]\<close>.
\<close>

fun bind_target :: "expr \<Rightarrow> expr \<Rightarrow> env" where
  "bind_target (Name x) v = [(x, v)]"
| "bind_target t v = map (\<lambda>x. (x, Subscript v [])) (target_names t)"

text \<open>The environment after a straight-line statement; the body of a compound one binds nothing here.\<close>

fun bind_stmt :: "env \<Rightarrow> stmt \<Rightarrow> env" where
  "bind_stmt env (Import ms) =
     map (\<lambda>m. (import_name m, Name (case snd m of Some _ \<Rightarrow> fst m | None \<Rightarrow> import_name m))) ms @ env"
| "bind_stmt env (FromImport m ns) = map (\<lambda>n. (n, Attr (Name m) n)) ns @ env"
| "bind_stmt env (Assign t v) = bind_target t v @ env"
| "bind_stmt env (AugAssign t op v) = bind_target t (BinOp op t v) @ env"
| "bind_stmt env _ = env"

text \<open>The dotted name of a resolved callee: \<open>skimage.io.imsave\<close>.\<close>

fun dotted :: "expr \<Rightarrow> string option" where
  "dotted (Name x) = Some x"
| "dotted (Attr e a) = map_option (\<lambda>q. q @ ''.'' @ a) (dotted e)"
| "dotted _ = None"

text \<open>
  The calls of the libraries that touch the file system, by what they do there (from
  the libraries' documentation): the loaders of \<open>skimage.data\<close> used here read a bundled
  sample image (\<open>binary_blobs\<close> generates its image and reads none), \<open>io.imread\<close> decodes
  an image file, \<open>io.imsave\<close> encodes one, \<open>plt.savefig\<close> renders the figure to a file,
  \<open>tempfile.mkdtemp\<close> creates a directory, \<open>os.listdir\<close> lists one.
\<close>

datatype file_effect = LoadSample | ReadImage | WriteImage | WriteFigure | MakeTempDir | ListDir

definition file_api :: "string \<Rightarrow> file_effect option" where
  "file_api q =
     (if q \<in> {''skimage.data.coins'', ''skimage.data.chelsea'', ''skimage.data.camera'',
               ''skimage.data.coffee'', ''skimage.data.text''} then Some LoadSample
      else if q = ''skimage.io.imread'' then Some ReadImage
      else if q = ''skimage.io.imsave'' then Some WriteImage
      else if q = ''matplotlib.pyplot.savefig'' then Some WriteFigure
      else if q = ''tempfile.mkdtemp'' then Some MakeTempDir
      else if q = ''os.listdir'' then Some ListDir
      else None)"

text \<open>
  A file-system call of a notebook: the cell, what the call does, and its first
  argument (the path), resolved.
\<close>

type_synonym file_call = "nat \<times> file_effect \<times> expr option"

definition file_calls_expr :: "nat \<Rightarrow> env \<Rightarrow> expr \<Rightarrow> file_call list" where
  "file_calls_expr line env e =
     concat (map (\<lambda>(f, args).
        case dotted (resolve env f) of
          None \<Rightarrow> []
        | Some q \<Rightarrow>
            (case file_api q of
               None \<Rightarrow> []
             | Some eff \<Rightarrow> [(line, eff, case args of [] \<Rightarrow> None | a # _ \<Rightarrow> Some (resolve env a))]))
       (calls e))"

fun file_calls_block :: "nat \<Rightarrow> env \<Rightarrow> stmt list \<Rightarrow> file_call list \<times> env" where
  "file_calls_block line env [] = ([], env)"
| "file_calls_block line env (s # ss) =
     (case file_calls_block line (bind_stmt env s) ss of
        (fs, env') \<Rightarrow> (concat (map (file_calls_expr line env) (stmt_exprs s)) @ fs, env'))"

fun file_calls_from :: "env \<Rightarrow> cell list \<Rightarrow> file_call list" where
  "file_calls_from env [] = []"
| "file_calls_from env (c # cs) =
     (case file_calls_block (fst c) env (snd c) of
        (fs, env') \<Rightarrow> fs @ file_calls_from env' cs)"

text \<open>The file-system calls of a notebook run top to bottom from a fresh kernel.\<close>

definition file_calls :: "cell list \<Rightarrow> file_call list" where
  "file_calls nb = file_calls_from [] nb"

text \<open>The paths the notebooks build.\<close>

definition tmp_path :: "string \<Rightarrow> expr" where
  \<comment> \<open>\<open>os.path.join(tempfile.mkdtemp(), name)\<close>\<close>
  "tmp_path name =
     Call (Attr (Attr (Name ''os'') ''path'') ''join'')
       [Call (Attr (Name ''tempfile'') ''mkdtemp'') [], Str name]"

definition sample_path :: "string \<Rightarrow> expr" where
  \<comment> \<open>\<open>os.path.join(skimage.data_dir, name)\<close>\<close>
  "sample_path name =
     Call (Attr (Attr (Name ''os'') ''path'') ''join'')
       [Attr (Name ''skimage'') ''data_dir'', Str name]"

definition is_str :: "expr \<Rightarrow> bool" where
  "is_str e = (case e of Str _ \<Rightarrow> True | _ \<Rightarrow> False)"

definition joined_under :: "expr \<Rightarrow> expr option \<Rightarrow> bool" where
  \<comment> \<open>the path is \<open>os.path.join(dir, '...')\<close>\<close>
  "joined_under dir p =
     (case p of
        Some (Call f args) \<Rightarrow>
          f = Attr (Attr (Name ''os'') ''path'') ''join'' \<and>
          (case args of [d, n] \<Rightarrow> d = dir \<and> is_str n | _ \<Rightarrow> False)
      | _ \<Rightarrow> False)"

definition in_tmp_dir :: "expr option \<Rightarrow> bool" where
  "in_tmp_dir p = joined_under (Call (Attr (Name ''tempfile'') ''mkdtemp'') []) p"

definition in_data_dir :: "expr option \<Rightarrow> bool" where
  "in_data_dir p = joined_under (Attr (Name ''skimage'') ''data_dir'') p"

text \<open>
  The two kinds of file interaction the specification names: a read of a bundled
  sample image, and a write of an output into a temporary directory made for it
  (making that directory included) through an encoding call of a library.
\<close>

fun sample_read_or_tmp_write :: "file_call \<Rightarrow> bool" where
  "sample_read_or_tmp_write (_, LoadSample, _) = True"
| "sample_read_or_tmp_write (_, ReadImage, p) = in_data_dir p"
| "sample_read_or_tmp_write (_, WriteImage, p) = in_tmp_dir p"
| "sample_read_or_tmp_write (_, WriteFigure, p) = in_tmp_dir p"
| "sample_read_or_tmp_write (_, MakeTempDir, p) = (p = None)"
| "sample_read_or_tmp_write (_, ListDir, _) = False"

text \<open>The modules a notebook imports.\<close>

fun imported :: "stmt \<Rightarrow> string list" where
  "imported (Import ms) = map fst ms"
| "imported (FromImport m _) = [m]"
| "imported (Def _ _ body) = concat (map imported body)"
| "imported (IfS _ a b) = concat (map imported a) @ concat (map imported b)"
| "imported (ForS _ _ body) = concat (map imported body)"
| "imported (TryS a b) = concat (map imported a) @ concat (map imported b)"
| "imported _ = []"

definition imported_modules :: "cell list \<Rightarrow> string list" where
  "imported_modules nb = remdups (concat (map imported (concat (map snd nb))))"

section \<open>Running statements: which operation raises\<close>

text \<open>
  What a run of the notebook code does depends on the libraries and the data, which
  are not part of the repository: a \<open>world\<close> fixes, for the \<open>k\<close>-th operation a run
  performs (a name lookup, an attribute access, a call, an operator, a subscript, an
  import, a truth test, taking an iterator), whether it raises and what; for a loop, how
  many elements its iterable yields; for a conditional, which way it goes. Every run of
  the Python code is the run in some world.

  A run is a function from the number of operations performed before it to the number
  performed after it and the exception it ends with, if any.
\<close>

record world =
  raises :: "nat \<Rightarrow> error option"
  iters :: "nat \<Rightarrow> nat"
  truth :: "nat \<Rightarrow> bool"

type_synonym run = "nat \<Rightarrow> nat \<times> error option"

definition oper :: "world \<Rightarrow> run" where
  \<comment> \<open>one operation: it returns or raises\<close>
  "oper w n = (Suc n, raises w n)"

fun chain :: "run list \<Rightarrow> run" where
  \<comment> \<open>one run after the other, up to the first exception\<close>
  "chain [] n = (n, None)"
| "chain (f # fs) n = (case f n of (n', None) \<Rightarrow> chain fs n' | (n', Some e) \<Rightarrow> (n', Some e))"

fun repeat :: "nat \<Rightarrow> run \<Rightarrow> run" where
  "repeat 0 body n = (n, None)"
| "repeat (Suc k) body n =
     (case body n of (n', None) \<Rightarrow> repeat k body n' | (n', Some e) \<Rightarrow> (n', Some e))"

definition loop :: "world \<Rightarrow> run \<Rightarrow> run" where
  \<comment> \<open>take the iterator, then run the body once per element\<close>
  "loop w body n =
     (case raises w n of Some e \<Rightarrow> (Suc n, Some e) | None \<Rightarrow> repeat (iters w n) body (Suc n))"

definition branch :: "world \<Rightarrow> run \<Rightarrow> run \<Rightarrow> run" where
  \<comment> \<open>test the condition's truth, then run one side\<close>
  "branch w a b n =
     (case raises w n of
        Some e \<Rightarrow> (Suc n, Some e)
      | None \<Rightarrow> if truth w n then a (Suc n) else b (Suc n))"

definition catch :: "run \<Rightarrow> run \<Rightarrow> run" where
  \<comment> \<open>\<open>try: a except: h\<close>: an exception of \<open>a\<close> is dropped and \<open>h\<close> runs\<close>
  "catch a h n = (case a n of (n', None) \<Rightarrow> (n', None) | (n', Some e) \<Rightarrow> h n')"

text \<open>
  Evaluating an expression: the parts left to right, then the operation itself. A
  literal performs no operation. The element expression of a comprehension runs once
  per element (a generator expression is consumed where it stands).
\<close>

fun eval :: "world \<Rightarrow> expr \<Rightarrow> run" where
  "eval w (Name x) = oper w"
| "eval w (Num n) = chain []"
| "eval w (Str s) = chain []"
| "eval w (Attr e a) = chain [eval w e, oper w]"
| "eval w (Call f args) = chain (eval w f # map (eval w) args @ [oper w])"
| "eval w (Kw k e) = eval w e"
| "eval w (Star e) = chain [eval w e, oper w]"
| "eval w (StarStar e) = chain [eval w e, oper w]"
| "eval w (Subscript e idx) = chain (eval w e # map (eval w) idx @ [oper w])"
| "eval w (Slice lo hi) =
     chain ((case lo of None \<Rightarrow> [] | Some e \<Rightarrow> [eval w e]) @
            (case hi of None \<Rightarrow> [] | Some e \<Rightarrow> [eval w e]))"
| "eval w (BinOp op a b) = chain [eval w a, eval w b, oper w]"
| "eval w (Tuple es) = chain (map (eval w) es)"
| "eval w (PyList es) = chain (map (eval w) es)"
| "eval w (ListComp e x it) = chain [eval w it, loop w (eval w e)]"
| "eval w (GenExp e x it) = chain [eval w it, loop w (eval w e)]"

text \<open>Storing into a target: nothing to do for a name; \<open>a[i] = v\<close> and \<open>a.x = v\<close> are operations.\<close>

fun store :: "world \<Rightarrow> expr \<Rightarrow> run" where
  "store w (Name x) = chain []"
| "store w (Subscript e idx) = chain (eval w e # map (eval w) idx @ [oper w])"
| "store w (Attr e a) = chain [eval w e, oper w]"
| "store w (Tuple ts) = chain (oper w # map (store w) ts)"
| "store w (PyList ts) = chain (oper w # map (store w) ts)"
| "store w e = oper w"

text \<open>
  Running a statement. \<open>def\<close> binds the function and runs nothing of its body; a call of
  the function is one operation of the caller, like any other call.
\<close>

fun exec :: "world \<Rightarrow> stmt \<Rightarrow> run" where
  "exec w (Magic m) = oper w"
| "exec w (Import ms) = chain (map (\<lambda>m. oper w) ms)"
| "exec w (FromImport m ns) = oper w"
| "exec w (Assign t v) = chain [eval w v, store w t]"
| "exec w (AugAssign t op v) = chain [eval w t, eval w v, oper w, store w t]"
| "exec w (Expr e) = eval w e"
| "exec w (Doc d) = chain []"
| "exec w (Def f ps body) = chain []"
| "exec w (IfS c a b) = chain [eval w c, branch w (chain (map (exec w) a)) (chain (map (exec w) b))]"
| "exec w (ForS t it body) = chain [eval w it, loop w (chain (store w t # map (exec w) body))]"
| "exec w (TryS a h) = catch (chain (map (exec w) a)) (chain (map (exec w) h))"

definition run_block :: "world \<Rightarrow> stmt list \<Rightarrow> run" where
  "run_block w ss = chain (map (exec w) ss)"

text \<open>No \<open>try\<close> in a statement, at any depth.\<close>

fun handler_free :: "stmt \<Rightarrow> bool" where
  "handler_free (TryS a h) = False"
| "handler_free (Def f ps body) = list_all handler_free body"
| "handler_free (IfS c a b) = (list_all handler_free a \<and> list_all handler_free b)"
| "handler_free (ForS t it body) = list_all handler_free body"
| "handler_free _ = True"

text \<open>The bodies of the functions a statement defines.\<close>

fun def_bodies :: "stmt \<Rightarrow> stmt list list" where
  "def_bodies (Def f ps body) = body # concat (map def_bodies body)"
| "def_bodies (IfS c a b) = concat (map def_bodies a) @ concat (map def_bodies b)"
| "def_bodies (ForS t it body) = concat (map def_bodies body)"
| "def_bodies (TryS a h) = concat (map def_bodies a) @ concat (map def_bodies h)"
| "def_bodies _ = []"

text \<open>Every piece of code that runs as a unit: each cell, and each function body.\<close>

definition code_blocks :: "cell list \<Rightarrow> stmt list list" where
  "code_blocks nb = map snd nb @ concat (map def_bodies (concat (map snd nb)))"

text \<open>
  What it means for a run to hand every exception on as it is: started after \<open>n\<close>
  operations, it either returns, and then no operation it performed raised; or it ends
  with the exception of the last operation it performed, every operation before that
  one having returned. \<open>quiet w n n'\<close>: none of the operations \<open>n\<close> to \<open>n' - 1\<close> raises.
\<close>

definition quiet :: "world \<Rightarrow> nat \<Rightarrow> nat \<Rightarrow> bool" where
  "quiet w n n' = (\<forall>k. n \<le> k \<and> k < n' \<longrightarrow> raises w k = None)"

definition hands_on :: "world \<Rightarrow> nat \<Rightarrow> nat \<times> error option \<Rightarrow> bool" where
  "hands_on w n res =
     (case res of
        (n', None) \<Rightarrow> n \<le> n' \<and> quiet w n n'
      | (n', Some e) \<Rightarrow> n < n' \<and> raises w (n' - 1) = Some e \<and> quiet w n (n' - 1))"

definition faithful :: "world \<Rightarrow> run \<Rightarrow> bool" where
  "faithful w f = (\<forall>n. hands_on w n (f n))"

text \<open>A world in which operation \<open>k\<close> raises \<open>e\<close> and every other operation returns.\<close>

definition fails_at :: "nat \<Rightarrow> error \<Rightarrow> world" where
  "fails_at k e =
     \<lparr>raises = (\<lambda>n. if n = k then Some e else None), iters = (\<lambda>_. 2), truth = (\<lambda>_. True)\<rparr>"

section \<open>Array statements of the notebooks\<close>

text \<open>
  A two-dimensional array is the list of its rows; a pixel is an unsigned 8-bit sample
  (\<open>8 word\<close>, arithmetic modulo 256, as numpy computes on \<open>uint8\<close>) or, for a colour
  image, the list of its channel samples. Arrays are objects: a name holds the address
  of an array in memory, two names can hold the same address, and a subscript
  assignment writes into the array at that address.
\<close>

type_synonym 'a array2 = "'a list list"

record 'a memory =
  heap :: "nat \<Rightarrow> 'a array2"
  next_free :: nat

definition alloc :: "'a array2 \<Rightarrow> 'a memory \<Rightarrow> nat \<times> 'a memory" where
  \<comment> \<open>a call that returns a new array\<close>
  "alloc a mem = (next_free mem, \<lparr>heap = (heap mem)(next_free mem := a), next_free = Suc (next_free mem)\<rparr>)"

definition overwrite :: "nat \<Rightarrow> 'a array2 \<Rightarrow> 'a memory \<Rightarrow> 'a memory" where
  \<comment> \<open>the array at an address gets new contents\<close>
  "overwrite addr a mem = mem\<lparr>heap := (heap mem)(addr := a)\<rparr>"

definition same_shape :: "'a array2 \<Rightarrow> 'b array2 \<Rightarrow> bool" where
  "same_shape a b = (map length a = map length b)"

subsection \<open>src/arrays.ipynb line 98: the red square\<close>

text \<open>
  \<^verbatim>\<open>cat[10:110, 10:110, :] = [255, 0, 0]\<close>
  A slice \<open>lo:hi\<close> selects the indices from \<open>lo\<close> up to \<open>hi\<close>, as far as the axis goes. The
  three values are broadcast along the last axis, which must have length 3.
\<close>

definition assign_block :: "nat \<Rightarrow> nat \<Rightarrow> nat \<Rightarrow> nat \<Rightarrow> 'a \<Rightarrow> 'a array2 \<Rightarrow> 'a array2" where
  "assign_block r0 r1 c0 c1 v a =
     map (\<lambda>(i, row).
            map (\<lambda>(j, p). if r0 \<le> i \<and> i < r1 \<and> c0 \<le> j \<and> j < c1 then v else p) (enumerate 0 row))
         (enumerate 0 a)"

definition red_square :: "nat \<Rightarrow> (8 word list) memory \<Rightarrow> error + (8 word list) memory" where
  "red_square cat mem =
     (if list_all (list_all (\<lambda>p. length p = 3)) (heap mem cat)
      then Inr (overwrite cat (assign_block 10 110 10 110 [255, 0, 0] (heap mem cat)) mem)
      else Inl (ValueError ''could not broadcast input array''))"

subsection \<open>src/arrays.ipynb lines 145 to 147: the background mask\<close>

text \<open>
  \<^verbatim>\<open>mask_bg = coins < 90\<close>
  \<^verbatim>\<open>coins_bg = np.copy(coins)\<close>
  \<^verbatim>\<open>coins_bg[mask_bg] = 0\<close>
  A comparison returns a new boolean array. A boolean index must have the shape of the
  array it indexes.
\<close>

definition array_less :: "8 word array2 \<Rightarrow> nat \<Rightarrow> bool array2" where
  "array_less a t = map (map (\<lambda>v. unat v < t)) a"

definition array_greater :: "8 word array2 \<Rightarrow> nat \<Rightarrow> bool array2" where
  "array_greater a t = map (map (\<lambda>v. unat v > t)) a"

definition mask_assign :: "bool array2 \<Rightarrow> 'a \<Rightarrow> 'a array2 \<Rightarrow> 'a array2" where
  "mask_assign bmask v a = map2 (map2 (\<lambda>m p. if m then v else p)) bmask a"

definition store_mask :: "nat \<Rightarrow> bool array2 \<Rightarrow> 'a \<Rightarrow> 'a memory \<Rightarrow> error + 'a memory" where
  "store_mask addr bmask v mem =
     (if same_shape bmask (heap mem addr)
      then Inr (overwrite addr (mask_assign bmask v (heap mem addr)) mem)
      else Inl (IndexError ''boolean index did not match indexed array''))"

text \<open>The cell, from the address of \<open>coins\<close>: the mask, the address of \<open>coins_bg\<close>, the memory.\<close>

definition background_cell ::
  "nat \<Rightarrow> (8 word) memory \<Rightarrow> error + (bool array2 \<times> nat \<times> (8 word) memory)" where
  "background_cell coins mem =
     (let mask_bg = array_less (heap mem coins) 90;
          (coins_bg, mem1) = alloc (heap mem coins) mem
      in case store_mask coins_bg mask_bg 0 mem1 of
           Inl e \<Rightarrow> Inl e
         | Inr mem2 \<Rightarrow> Inr (mask_bg, coins_bg, mem2))"

subsection \<open>src/visualization.ipynb lines 706 to 709: the watershed markers\<close>

text \<open>
  \<^verbatim>\<open>markers = np.zeros_like(coins)\<close>
  \<^verbatim>\<open>background, foreground = 1, 2\<close>
  \<^verbatim>\<open>markers[coins < 30.0] = background\<close>
  \<^verbatim>\<open>markers[coins > 150.0] = foreground\<close>
\<close>

definition zeros_like :: "8 word array2 \<Rightarrow> 8 word array2" where
  "zeros_like a = map (map (\<lambda>_. 0)) a"

text \<open>The memory after each of the three array statements, and the address of \<open>markers\<close>.\<close>

definition markers_cell ::
  "nat \<Rightarrow> (8 word) memory \<Rightarrow> error + (nat \<times> (8 word) memory \<times> (8 word) memory \<times> (8 word) memory)" where
  "markers_cell coins mem =
     (let (markers, mem1) = alloc (zeros_like (heap mem coins)) mem;
          background = 1;
          foreground = 2
      in case store_mask markers (array_less (heap mem1 coins) 30) background mem1 of
           Inl e \<Rightarrow> Inl e
         | Inr mem2 \<Rightarrow>
             (case store_mask markers (array_greater (heap mem2 coins) 150) foreground mem2 of
                Inl e \<Rightarrow> Inl e
              | Inr mem3 \<Rightarrow> Inr (markers, mem1, mem2, mem3)))"

subsection \<open>Element types and their ranges\<close>

text \<open>
  src/arrays.ipynb line 212, \<^verbatim>\<open>camera_overflow = 2 * camera\<close>: the product of a Python
  integer and a \<open>uint8\<close> array is a \<open>uint8\<close> array, computed modulo 256.
\<close>

definition camera_overflow :: "8 word array2 \<Rightarrow> 8 word array2" where
  "camera_overflow camera = map (map (\<lambda>v. 2 * v)) camera"

text \<open>
  src/visualization.ipynb line 637, \<^verbatim>\<open>im = data.binary_blobs() - 0.5\<close>:
  \<open>binary_blobs\<close> returns a boolean array; subtracting a float from it gives a float
  array, \<open>True\<close> counting as 1 and \<open>False\<close> as 0. The values 0.5 and -0.5 are floats
  exactly, so the samples are modelled as real numbers.
\<close>

definition blobs_minus_half :: "bool array2 \<Rightarrow> real array2" where
  "blobs_minus_half blobs = map (map (\<lambda>b. (if b then 1 else 0) - 1 / 2)) blobs"

text \<open>The range the specification gives a floating-point image: every sample in 0..1.\<close>

definition in_unit_range :: "real array2 \<Rightarrow> bool" where
  "in_unit_range a = list_all (list_all (\<lambda>v. 0 \<le> v \<and> v \<le> 1)) a"

subsection \<open>Reading a result\<close>

text \<open>The array at an address once a statement has run, or the exception it raised.\<close>

definition contents_after :: "error + 'a memory \<Rightarrow> nat \<Rightarrow> error + 'a array2" where
  "contents_after r addr = (case r of Inl e \<Rightarrow> Inl e | Inr mem \<Rightarrow> Inr (heap mem addr))"

text \<open>The array \<open>markers\<close> after each of the three array statements of its cell.\<close>

definition markers_history :: "nat \<Rightarrow> (8 word) memory \<Rightarrow> error + (8 word) array2 list" where
  "markers_history coins mem =
     (case markers_cell coins mem of
        Inl e \<Rightarrow> Inl e
      | Inr (markers, mem1, mem2, mem3) \<Rightarrow>
          Inr [heap mem1 markers, heap mem2 markers, heap mem3 markers])"

subsection \<open>Concrete inputs\<close>

text \<open>
  An 11 by 11 colour image at address 0, every pixel (143, 120, 104), and a 2 by 3
  grey image at address 0, to run the array statements on.
\<close>

definition cat_memory :: "(8 word list) memory" where
  "cat_memory = \<lparr>heap = (\<lambda>_. [])(0 := replicate 11 (replicate 11 [143, 120, 104])), next_free = 1\<rparr>"

definition coins_memory :: "(8 word) memory" where
  "coins_memory = \<lparr>heap = (\<lambda>_. [])(0 := [[10, 100, 200], [29, 151, 150]]), next_free = 1\<rparr>"

section \<open>Properties of \<open>imshow_all\<close>\<close>

lemma fold_min_Min: "fold min xs (x::real) = Min (set (x # xs))"
  by (simp only: Min.set_eq_fold)

lemma fold_max_Max: "fold max xs (x::real) = Max (set (x # xs))"
  by (simp only: Max.set_eq_fold)

lemma arr_min_Inr: "arr_min a = Inr m \<longleftrightarrow> a \<noteq> [] \<and> m = Min (set a)"
  by (cases a) (auto simp: arr_min_def fold_min_Min)

lemma arr_max_Inr: "arr_max a = Inr m \<longleftrightarrow> a \<noteq> [] \<and> m = Max (set a)"
  by (cases a) (auto simp: arr_max_def fold_max_Max)

lemma arr_min_ok: "a \<noteq> [] \<Longrightarrow> arr_min a = Inr (Min (set a))"
  by (simp add: arr_min_Inr)

lemma gen_arr_min:
  "gen arr_min imgs = Inr ms \<Longrightarrow> [] \<notin> set imgs \<and> ms = map (\<lambda>a. Min (set a)) imgs"
proof (induction imgs arbitrary: ms)
  case Nil
  then show ?case by simp
next
  case (Cons a imgs)
  from Cons.prems obtain m ms' where m: "arr_min a = Inr m" and g: "gen arr_min imgs = Inr ms'"
    and ms: "ms = m # ms'"
    by (auto split: sum.splits)
  from Cons.IH [OF g] m ms show ?case by (auto simp: arr_min_Inr)
qed

lemma arr_max_ok: "a \<noteq> [] \<Longrightarrow> arr_max a = Inr (Max (set a))"
  by (simp add: arr_max_Inr)

lemma gen_arr_max:
  "gen arr_max imgs = Inr ms \<Longrightarrow> [] \<notin> set imgs \<and> ms = map (\<lambda>a. Max (set a)) imgs"
proof (induction imgs arbitrary: ms)
  case Nil
  then show ?case by simp
next
  case (Cons a imgs)
  from Cons.prems obtain m ms' where m: "arr_max a = Inr m" and g: "gen arr_max imgs = Inr ms'"
    and ms: "ms = m # ms'"
    by (auto split: sum.splits)
  from Cons.IH [OF g] m ms show ?case by (auto simp: arr_max_Inr)
qed

lemma Min_concat:
  "imgs \<noteq> [] \<Longrightarrow> [] \<notin> set imgs \<Longrightarrow>
   Min (set (map (\<lambda>a. Min (set a)) imgs)) = Min (set (concat (imgs :: real list list)))"
proof (induction imgs rule: list_nonempty_induct)
  case (single a)
  then show ?case by simp
next
  case (cons a imgs)
  have ne: "set (concat imgs) \<noteq> {}" using cons.hyps cons.prems by (cases imgs) auto
  have "set a \<noteq> {}" using cons.prems by auto
  then have "Min (set a \<union> set (concat imgs)) = min (Min (set a)) (Min (set (concat imgs)))"
    using ne by (intro Min_Un) simp_all
  then have "Min (set (concat (a # imgs))) = min (Min (set a)) (Min (set (concat imgs)))"
    by (simp only: concat.simps set_append)
  moreover have "Min (set (map (\<lambda>a. Min (set a)) (a # imgs))) = min (Min (set a)) (Min (set (map (\<lambda>a. Min (set a)) imgs)))"
    using cons.hyps by simp
  ultimately show ?case using cons.IH cons.prems by simp
qed

lemma Max_concat:
  "imgs \<noteq> [] \<Longrightarrow> [] \<notin> set imgs \<Longrightarrow>
   Max (set (map (\<lambda>a. Max (set a)) imgs)) = Max (set (concat (imgs :: real list list)))"
proof (induction imgs rule: list_nonempty_induct)
  case (single a)
  then show ?case by simp
next
  case (cons a imgs)
  have ne: "set (concat imgs) \<noteq> {}" using cons.hyps cons.prems by (cases imgs) auto
  have "set a \<noteq> {}" using cons.prems by auto
  then have "Max (set a \<union> set (concat imgs)) = max (Max (set a)) (Max (set (concat imgs)))"
    using ne by (intro Max_Un) simp_all
  then have "Max (set (concat (a # imgs))) = max (Max (set a)) (Max (set (concat imgs)))"
    by (simp only: concat.simps set_append)
  moreover have "Max (set (map (\<lambda>a. Max (set a)) (a # imgs))) = max (Max (set a)) (Max (set (map (\<lambda>a. Max (set a)) imgs)))"
    using cons.hyps by simp
  ultimately show ?case using cons.IH cons.prems by simp
qed

lemma py_min_gen:
  assumes "py_min (gen arr_min imgs) = Inr lo"
  shows "imgs \<noteq> [] \<and> [] \<notin> set imgs \<and> lo = Min (set (concat imgs))"
proof -
  from assms obtain ms where g: "gen arr_min imgs = Inr ms" and ne: "ms \<noteq> []"
    and lo: "lo = Min (set ms)"
    by (auto simp: py_min_def fold_min_Min split: sum.splits list.splits)
  from gen_arr_min [OF g] have a: "[] \<notin> set imgs" and ms: "ms = map (\<lambda>a. Min (set a)) imgs" by simp_all
  from ms ne have i: "imgs \<noteq> []" by auto
  from Min_concat [OF i a] lo ms i a show ?thesis by simp
qed

lemma py_max_gen:
  assumes "py_max (gen arr_max imgs) = Inr hi"
  shows "imgs \<noteq> [] \<and> [] \<notin> set imgs \<and> hi = Max (set (concat imgs))"
proof -
  from assms obtain ms where g: "gen arr_max imgs = Inr ms" and ne: "ms \<noteq> []"
    and hi: "hi = Max (set ms)"
    by (auto simp: py_max_def fold_max_Max split: sum.splits list.splits)
  from gen_arr_max [OF g] have a: "[] \<notin> set imgs" and ms: "ms = map (\<lambda>a. Max (set a)) imgs" by simp_all
  from ms ne have i: "imgs \<noteq> []" by auto
  from Max_concat [OF i a] hi ms i a show ?thesis by simp
qed

lemma py_min_gen_ok:
  assumes "imgs \<noteq> []" "[] \<notin> set imgs"
  shows "py_min (gen arr_min imgs) = Inr (Min (set (concat imgs)))"
proof -
  have "gen arr_min imgs = Inr (map (\<lambda>a. Min (set a)) imgs)" using assms(2)
    by (induction imgs) (auto simp: arr_min_ok)
  then have "py_min (gen arr_min imgs) = Inr (Min (set (map (\<lambda>a. Min (set a)) imgs)))"
    using assms(1) by (cases imgs) (simp_all add: py_min_def fold_min_Min)
  with Min_concat [OF assms] show ?thesis by simp
qed

lemma py_max_gen_ok:
  assumes "imgs \<noteq> []" "[] \<notin> set imgs"
  shows "py_max (gen arr_max imgs) = Inr (Max (set (concat imgs)))"
proof -
  have "gen arr_max imgs = Inr (map (\<lambda>a. Max (set a)) imgs)" using assms(2)
    by (induction imgs) (auto simp: arr_max_ok)
  then have "py_max (gen arr_max imgs) = Inr (Max (set (map (\<lambda>a. Max (set a)) imgs)))"
    using assms(1) by (cases imgs) (simp_all add: py_max_def fold_max_Max)
  with Max_concat [OF assms] show ?thesis by simp
qed

lemma set_limits_image:
  assumes "set_limits G L ''image'' imgs kw = Inr kw'" "kw_vmin kw = None" "kw_vmax kw = None"
  shows "imgs \<noteq> [] \<and> [] \<notin> set imgs \<and>
         kw' = kw\<lparr>kw_vmin := Some (Min (set (concat imgs))), kw_vmax := Some (Max (set (concat imgs)))\<rparr>"
proof -
  from assms(1) obtain lo hi where lo: "py_min (gen arr_min imgs) = Inr lo"
    and hi: "py_max (gen arr_max imgs) = Inr hi"
    and kw': "kw' = setdefault_vmax hi (setdefault_vmin lo kw)"
    by (auto simp: set_limits_def split: sum.splits)
  from py_min_gen [OF lo] py_max_gen [OF hi] kw' assms(2,3) show ?thesis
    by (simp add: setdefault_vmin_def setdefault_vmax_def)
qed

lemma show_loop_events:
  "ev \<in> set (fst (show_loop L kw triples)) \<Longrightarrow>
   \<exists>ax img t. (ax, img, t) \<in> set triples \<and> (ev = Imshow ax img kw \<or> ev = SetTitle ax t)"
proof (induction triples)
  case Nil
  then show ?case by simp
next
  case (Cons p triples)
  obtain ax img t where p: "p = (ax, img, t)" by (cases p) auto
  from Cons show ?case unfolding p
    by (auto split: option.splits prod.splits)
qed

lemma show_loop_ok:
  assumes "\<And>ax img t. (ax, img, t) \<in> set triples \<Longrightarrow>
             ax_imshow L ax img kw = None \<and> ax_set_title L ax t = None"
  shows "show_loop L kw triples =
         (concat (map (\<lambda>(ax, img, t). [Imshow ax img kw, SetTitle ax t]) triples), None)"
  using assms
proof (induction triples)
  case Nil
  then show ?case by simp
next
  case (Cons p triples)
  obtain ax img t where p: "p = (ax, img, t)" by (cases p) auto
  from Cons.prems [of ax img t] have ok: "ax_imshow L ax img kw = None" "ax_set_title L ax t = None"
    by (simp_all add: p)
  have "show_loop L kw triples =
        (concat (map (\<lambda>(ax, img, t). [Imshow ax img kw, SetTitle ax t]) triples), None)"
    by (rule Cons.IH) (rule Cons.prems, simp)
  with ok show ?case by (simp add: p)
qed

lemma pad_titles_length: "n \<le> length (pad_titles ts n)"
  unfolding pad_titles_def by (cases "length ts \<le> n") auto

lemma pad_titles_nth: "i < n \<Longrightarrow> pad_titles ts n ! i = (if i < length ts then ts ! i else '''')"
  by (auto simp: pad_titles_def nth_append)

lemma zip3_index:
  assumes "length imgs \<le> length ts"
  shows "zip axes (zip imgs ts) =
         map (\<lambda>i. (axes ! i, imgs ! i, ts ! i)) [0..<min (length axes) (length imgs)]"
  using assms by (intro nth_equalityI) auto

subsection \<open>Shared intensity limits\<close>

text \<open>
  Claim C8. In a call of \<open>imshow_all\<close> with the default \<open>limits='image'\<close> and neither \<open>vmin\<close>
  nor \<open>vmax\<close> among the keywords, every image is converted with \<open>img_as_float\<close> before
  anything is shown, and every \<open>ax.imshow\<close> call gets \<open>vmin\<close> = the least sample of all
  converted images and \<open>vmax\<close> = their greatest sample, so the subplots share one
  intensity scale. The second part says the limits are set whenever there is something
  to take a minimum of: at least one image and no image without samples (else \<open>min\<close>,
  \<open>max\<close>, \<open>img.min()\<close> or \<open>img.max()\<close> raise ValueError and nothing is shown).
\<close>

theorem imshow_all_image_limits:
  assumes lim: "kw_limits kw = None \<or> kw_limits kw = Some ''image''"
    and vmin: "kw_vmin kw = None" and vmax: "kw_vmax kw = None"
  shows "(Imshow ax img kw' \<in> set (fst (imshow_all G L images kw)) \<longrightarrow>
            (\<exists>imgs. convert_all G L images = Inr imgs \<and> img \<in> set imgs \<and>
               kw_vmin kw' = Some (Min (set (concat imgs))) \<and>
               kw_vmax kw' = Some (Max (set (concat imgs))))) \<and>
         (convert_all G L images = Inr imgs \<and> imgs \<noteq> [] \<and> [] \<notin> set imgs \<longrightarrow>
            set_limits G L ''image'' imgs (kw\<lparr>kw_titles := None, kw_limits := None\<rparr>) =
              Inr (kw\<lparr>kw_titles := None, kw_limits := None,
                      kw_vmin := Some (Min (set (concat imgs))),
                      kw_vmax := Some (Max (set (concat imgs)))\<rparr>))"
proof (intro conjI impI)
  assume ev: "Imshow ax img kw' \<in> set (fst (imshow_all G L images kw))"
  from lim have l: "(case kw_limits kw of None \<Rightarrow> ''image'' | Some l \<Rightarrow> l) = ''image''"
    by auto
  let ?kw2 = "kw\<lparr>kw_titles := None, kw_limits := None\<rparr>"
  from ev obtain fs where conv: "convert_all G L images = Inr fs"
    by (cases "convert_all G L images") (auto simp: imshow_all_def)
  from ev conv l obtain kw3 where sl: "set_limits G L ''image'' fs ?kw2 = Inr kw3"
    by (cases "set_limits G L ''image'' fs ?kw2") (auto simp: imshow_all_def Let_def)
  from vmin vmax have "kw_vmin ?kw2 = None" "kw_vmax ?kw2 = None" by simp_all
  from set_limits_image [OF sl this]
  have kw3: "kw3 = ?kw2\<lparr>kw_vmin := Some (Min (set (concat fs))), kw_vmax := Some (Max (set (concat fs)))\<rparr>"
    by simp
  let ?kw4 = "kw3\<lparr>kw_size := None\<rparr>"
  from ev conv l sl obtain axes where
    "Imshow ax img kw' \<in> set (fst (show_loop L ?kw4
        (zip axes (zip fs (pad_titles (case kw_titles kw of None \<Rightarrow> [] | Some t \<Rightarrow> t) (length fs))))))"
    by (auto simp: imshow_all_def Let_def split: sum.splits prod.splits) (metis fst_conv)
  from show_loop_events [OF this] obtain t where
    "(ax, img, t) \<in> set (zip axes (zip fs (pad_titles (case kw_titles kw of None \<Rightarrow> [] | Some t \<Rightarrow> t) (length fs))))"
    and k: "kw' = ?kw4"
    by auto
  then have "img \<in> set fs" by (auto dest: set_zip_rightD set_zip_leftD)
  with conv k kw3 show "\<exists>imgs. convert_all G L images = Inr imgs \<and> img \<in> set imgs \<and>
               kw_vmin kw' = Some (Min (set (concat imgs))) \<and>
               kw_vmax kw' = Some (Max (set (concat imgs)))"
    by simp
next
  assume a: "convert_all G L images = Inr imgs \<and> imgs \<noteq> [] \<and> [] \<notin> set imgs"
  then have ne: "imgs \<noteq> []" and nn: "[] \<notin> set imgs" by simp_all
  show "set_limits G L ''image'' imgs (kw\<lparr>kw_titles := None, kw_limits := None\<rparr>) =
              Inr (kw\<lparr>kw_titles := None, kw_limits := None,
                      kw_vmin := Some (Min (set (concat imgs))),
                      kw_vmax := Some (Max (set (concat imgs)))\<rparr>)"
    using vmin vmax
    by (simp add: set_limits_def py_min_gen_ok [OF ne nn] py_max_gen_ok [OF ne nn]
        setdefault_vmin_def setdefault_vmax_def)
qed

theorem imshow_all_image_limits_witness:
  "Imshow 1 [1 / 4, 1 / 2] (no_kwargs\<lparr>kw_vmin := Some 0, kw_vmax := Some 1\<rparr>)
     \<in> set (fst (imshow_all {''plt'', ''img_as_float''} float_library [[0, 1], [1 / 4, 1 / 2]] no_kwargs)) \<and>
   set_limits {''plt'', ''img_as_float''} float_library ''image'' [[0, 1], [1 / 4, 1 / 2]] no_kwargs =
     Inr (no_kwargs\<lparr>kw_vmin := Some 0, kw_vmax := Some 1\<rparr>)"
proof -
  have conv: "convert_all {''plt'', ''img_as_float''} float_library [[0, 1], [1 / 4, 1 / 2]] =
              Inr [[0, 1], [1 / 4, 1 / 2]]"
    by code_simp
  have shown: "Imshow 1 [1 / 4, 1 / 2] (no_kwargs\<lparr>kw_vmin := Some 0, kw_vmax := Some 1\<rparr>)
     \<in> set (fst (imshow_all {''plt'', ''img_as_float''} float_library [[0, 1], [1 / 4, 1 / 2]] no_kwargs))"
    by code_simp
  have k: "no_kwargs\<lparr>kw_titles := None, kw_limits := None\<rparr> = no_kwargs"
    by (simp add: no_kwargs_def)
  have m: "Min (set (concat [[0, 1], [1 / 4, 1 / 2 :: real]])) = 0"
          "Max (set (concat [[0, 1], [1 / 4, 1 / 2 :: real]])) = 1"
    by simp_all
  have "kw_limits no_kwargs = None \<or> kw_limits no_kwargs = Some ''image''"
       "kw_vmin no_kwargs = None" "kw_vmax no_kwargs = None"
    by (simp_all add: no_kwargs_def)
  from imshow_all_image_limits [OF this, of _ _ _ "{''plt'', ''img_as_float''}" float_library
      "[[0, 1], [1 / 4, 1 / 2]]" "[[0, 1], [1 / 4, 1 / 2]]"] conv shown
  show ?thesis
    by (simp add: k m)
qed

subsection \<open>Titles\<close>

text \<open>
  Claim C10, as stated, fails in its last part. \<open>imshow_all(a, b, c, titles=['a', 'b', 'c',
  'd'], shape=(1, 2))\<close> has more titles than images; the surplus title is dropped without
  an error, but the grid has two axes and \<open>zip\<close> stops with them: the third image is not
  displayed.
\<close>

theorem imshow_all_titles_counterexample:
  "imshow_all {''plt'', ''img_as_float''} float_library [[0, 1], [1 / 4, 1 / 2], [1 / 2, 1]]
     (no_kwargs\<lparr>kw_titles := Some [''a'', ''b'', ''c'', ''d''], kw_shape := Some (1, 2)\<rparr>) =
     ([Subplots 1 2 (Mul (Mul (Number 1) (Number 5)) (Number 3)) (Mul (Number 1) (Number 5)),
       Imshow 0 [0, 1] (no_kwargs\<lparr>kw_vmin := Some 0, kw_vmax := Some 1, kw_shape := Some (1, 2)\<rparr>),
       SetTitle 0 ''a'',
       Imshow 1 [1 / 4, 1 / 2] (no_kwargs\<lparr>kw_vmin := Some 0, kw_vmax := Some 1, kw_shape := Some (1, 2)\<rparr>),
       SetTitle 1 ''b''],
      None)"
  by code_simp

text \<open>
  Claim C10, amended. \<open>titles\<close> shorter than the images is padded with empty strings,
  \<open>titles\<close> longer than the images is left as it is and \<open>zip\<close> drops the surplus without an
  error. When the calls before the loop return, \<open>axes\<close> being what \<open>axes.ravel()\<close> holds,
  and the plotting calls of the loop return, the helper shows image \<open>i\<close> on axis \<open>i\<close> under
  title \<open>i\<close> of the supplied titles, or under the empty string when there is no such
  title, for every index \<open>i\<close> below the number of axes and below the number of images,
  and shows nothing else. The images shown are the first \<open>min (length axes) (length imgs)\<close>,
  whatever titles are supplied: all of them exactly when there are at least as many
  axes as images.
\<close>

theorem imshow_all_titles:
  assumes conv: "convert_all G L images = Inr imgs"
    and lim: "set_limits G L (case kw_limits kw of None \<Rightarrow> ''image'' | Some l \<Rightarrow> l) imgs
                (kw\<lparr>kw_titles := None, kw_limits := None\<rparr>) = Inr kw3"
    and plt: "''plt'' \<in> G"
    and grid: "grid_shape kw3 (length imgs) = (nrows, ncols)"
    and sub: "plt_subplots L nrows ncols (fig_width (fig_size kw3 nrows) nrows (length imgs)) (fig_size kw3 nrows) = Inr axes"
    and titles: "titles = (case kw_titles kw of None \<Rightarrow> [] | Some t \<Rightarrow> t)"
    and ok: "\<And>i. i < min (length axes) (length imgs) \<Longrightarrow>
               ax_imshow L (axes ! i) (imgs ! i) (kw3\<lparr>kw_size := None\<rparr>) = None \<and>
               ax_set_title L (axes ! i) (if i < length titles then titles ! i else '''') = None"
  shows "imshow_all G L images kw =
           (Subplots nrows ncols (fig_width (fig_size kw3 nrows) nrows (length imgs)) (fig_size kw3 nrows) #
            concat (map (\<lambda>i. [Imshow (axes ! i) (imgs ! i) (kw3\<lparr>kw_size := None\<rparr>),
                                SetTitle (axes ! i) (if i < length titles then titles ! i else '''')])
                        [0..<min (length axes) (length imgs)]),
            None)"
proof -
  let ?ts = "pad_titles titles (length imgs)"
  let ?kw4 = "kw3\<lparr>kw_size := None\<rparr>"
  have z: "zip axes (zip imgs ?ts) =
           map (\<lambda>i. (axes ! i, imgs ! i, ?ts ! i)) [0..<min (length axes) (length imgs)]"
    by (rule zip3_index) (rule pad_titles_length)
  have "show_loop L ?kw4 (zip axes (zip imgs ?ts)) =
        (concat (map (\<lambda>(ax, img, t). [Imshow ax img ?kw4, SetTitle ax t])
                     (zip axes (zip imgs ?ts))), None)"
  proof (rule show_loop_ok)
    fix ax img t
    assume "(ax, img, t) \<in> set (zip axes (zip imgs ?ts))"
    then obtain i where i: "i < min (length axes) (length imgs)"
      and e: "ax = axes ! i" "img = imgs ! i" "t = ?ts ! i"
      unfolding z by auto
    from i have "?ts ! i = (if i < length titles then titles ! i else '''')"
      by (simp add: pad_titles_nth)
    with ok [OF i] e show "ax_imshow L ax img ?kw4 = None \<and> ax_set_title L ax t = None"
      by simp
  qed
  also have "concat (map (\<lambda>(ax, img, t). [Imshow ax img ?kw4, SetTitle ax t])
                     (zip axes (zip imgs ?ts))) =
             concat (map (\<lambda>i. [Imshow (axes ! i) (imgs ! i) ?kw4,
                                SetTitle (axes ! i) (if i < length titles then titles ! i else '''')])
                        [0..<min (length axes) (length imgs)])"
    unfolding z by (auto simp: comp_def pad_titles_nth intro!: arg_cong [where f = concat])
  finally show ?thesis
    using conv lim plt grid sub titles
    by (simp add: imshow_all_def Let_def lookup_def)
qed

theorem imshow_all_titles_witness:
  "imshow_all {''plt'', ''img_as_float''} float_library [[0, 1], [1 / 4, 1 / 2]]
     (no_kwargs\<lparr>kw_titles := Some [''a'', ''b'', ''c'']\<rparr>) =
     (Subplots 1 2 (Mul (Mul (Number 1) (Number 5)) (Number 2)) (Mul (Number 1) (Number 5)) #
      [Imshow 0 [0, 1] (no_kwargs\<lparr>kw_vmin := Some 0, kw_vmax := Some 1\<rparr>), SetTitle 0 ''a'',
       Imshow 1 [1 / 4, 1 / 2] (no_kwargs\<lparr>kw_vmin := Some 0, kw_vmax := Some 1\<rparr>), SetTitle 1 ''b''],
      None) \<and>
   imshow_all {''plt'', ''img_as_float''} float_library [[0, 1], [1 / 4, 1 / 2]]
     (no_kwargs\<lparr>kw_titles := Some [''a'']\<rparr>) =
     (Subplots 1 2 (Mul (Mul (Number 1) (Number 5)) (Number 2)) (Mul (Number 1) (Number 5)) #
      [Imshow 0 [0, 1] (no_kwargs\<lparr>kw_vmin := Some 0, kw_vmax := Some 1\<rparr>), SetTitle 0 ''a'',
       Imshow 1 [1 / 4, 1 / 2] (no_kwargs\<lparr>kw_vmin := Some 0, kw_vmax := Some 1\<rparr>), SetTitle 1 ''''],
      None)"
proof -
  let ?G = "{''plt'', ''img_as_float''}"
  let ?kw3 = "no_kwargs\<lparr>kw_vmin := Some 0, kw_vmax := Some 1\<rparr>"
  have conv: "convert_all ?G float_library [[0, 1], [1 / 4, 1 / 2]] = Inr [[0, 1], [1 / 4, 1 / 2]]"
    by code_simp
  have lim: "set_limits ?G float_library (case kw_limits kw of None \<Rightarrow> ''image'' | Some l \<Rightarrow> l)
               [[0, 1], [1 / 4, 1 / 2]] (kw\<lparr>kw_titles := None, kw_limits := None\<rparr>) = Inr ?kw3"
    if "kw = no_kwargs\<lparr>kw_titles := Some ts\<rparr>" for kw ts
    unfolding that by code_simp
  have plt: "''plt'' \<in> ?G" by simp
  have grid: "grid_shape ?kw3 (length [[0, 1], [1 / 4, 1 / 2 :: real]]) = (1, 2)"
    by code_simp
  have fig: "fig_size ?kw3 1 = Mul (Number 1) (Number 5)"
            "fig_width (Mul (Number 1) (Number 5)) 1 (length [[0, 1], [1 / 4, 1 / 2 :: real]]) =
               Mul (Mul (Number 1) (Number 5)) (Number 2)"
    by (simp_all add: fig_size_def fig_width_def no_kwargs_def)
  have sub: "plt_subplots float_library 1 2
               (fig_width (fig_size ?kw3 1) 1 (length [[0, 1], [1 / 4, 1 / 2 :: real]])) (fig_size ?kw3 1) =
             Inr [0, 1]"
    by code_simp
  have ok: "ax_imshow float_library ([0, 1] ! i) ([[0, 1], [1 / 4, 1 / 2]] ! i) (?kw3\<lparr>kw_size := None\<rparr>) = None \<and>
            ax_set_title float_library ([0, 1] ! i) (if i < length ts then ts ! i else '''') = None"
    for i :: nat and ts :: "string list"
    by (simp add: float_library_def)
  have sz: "?kw3\<lparr>kw_size := None\<rparr> = ?kw3" by (simp add: no_kwargs_def)
  have idx: "[0..<min (length [0, 1 :: nat]) (length [[0, 1], [1 / 4, 1 / 2 :: real]])] = [0, 1]"
    by code_simp
  have more: "[''a'', ''b'', ''c''] = (case kw_titles (no_kwargs\<lparr>kw_titles := Some [''a'', ''b'', ''c'']\<rparr>) of None \<Rightarrow> [] | Some t \<Rightarrow> t)"
    and fewer: "[''a''] = (case kw_titles (no_kwargs\<lparr>kw_titles := Some [''a'']\<rparr>) of None \<Rightarrow> [] | Some t \<Rightarrow> t)"
    by simp_all
  from imshow_all_titles [OF conv lim [OF refl] plt grid sub more ok]
       imshow_all_titles [OF conv lim [OF refl] plt grid sub fewer ok]
  show ?thesis
    unfolding fig sz idx by simp
qed

subsection \<open>\<open>limits='dtype'\<close>\<close>

text \<open>
  The helper reads the global name \<open>dtype_limits\<close>, and nothing in the filtering
  notebook binds it: it is not a built-in, no cell imports, assigns or defines it.
\<close>

lemma dtype_limits_unbound:
  "''dtype_limits'' \<in> set (def_globals imshow_all_def_stmt) \<and>
   ''dtype_limits'' \<notin> set (namespace filtering_nb)"
  by code_simp

text \<open>
  Claim C9. A call of \<open>imshow_all\<close> with \<open>limits='dtype'\<close>, in a namespace \<open>G\<close> that holds
  only names the filtering notebook binds, ends with an exception before any plotting
  call; once the conversions of the first line have returned, that exception is the
  NameError for \<open>dtype_limits\<close>.
\<close>

theorem imshow_all_dtype_NameError:
  assumes "kw_limits kw = Some ''dtype''" and "G \<subseteq> set (namespace filtering_nb)"
  shows "\<exists>e. imshow_all G L images kw = ([], Some e) \<and>
             (\<forall>imgs. convert_all G L images = Inr imgs \<longrightarrow> e = NameError ''dtype_limits'')"
proof (cases "convert_all G L images")
  case (Inl e)
  then show ?thesis by (simp add: imshow_all_def)
next
  case (Inr imgs)
  from assms(2) dtype_limits_unbound have "''dtype_limits'' \<notin> G" by blast
  then have "set_limits G L ''dtype'' imgs (kw\<lparr>kw_titles := None, kw_limits := None\<rparr>) =
             Inl (NameError ''dtype_limits'')"
    by (simp add: set_limits_def lookup_def)
  with Inr assms(1) show ?thesis by (simp add: imshow_all_def)
qed

theorem imshow_all_dtype_NameError_witness:
  "{''plt'', ''img_as_float''} \<subseteq> set (namespace filtering_nb) \<and>
   convert_all {''plt'', ''img_as_float''} float_library [[0, 1], [1 / 4, 1 / 2]] =
     Inr [[0, 1], [1 / 4, 1 / 2]] \<and>
   imshow_all {''plt'', ''img_as_float''} float_library [[0, 1], [1 / 4, 1 / 2]]
     (no_kwargs\<lparr>kw_limits := Some ''dtype''\<rparr>) = ([], Some (NameError ''dtype_limits''))"
proof -
  have g: "{''plt'', ''img_as_float''} \<subseteq> set (namespace filtering_nb)"
    by code_simp
  have conv: "convert_all {''plt'', ''img_as_float''} float_library [[0, 1], [1 / 4, 1 / 2]] =
              Inr [[0, 1], [1 / 4, 1 / 2]]"
    by code_simp
  have l: "kw_limits (no_kwargs\<lparr>kw_limits := Some ''dtype''\<rparr>) = Some ''dtype''"
    by simp
  from imshow_all_dtype_NameError [OF l g, of float_library "[[0, 1], [1 / 4, 1 / 2]]"] conv
  have "imshow_all {''plt'', ''img_as_float''} float_library [[0, 1], [1 / 4, 1 / 2]]
     (no_kwargs\<lparr>kw_limits := Some ''dtype''\<rparr>) = ([], Some (NameError ''dtype_limits''))"
    by auto
  with g conv show ?thesis by simp
qed

section \<open>Properties of the notebooks\<close>

subsection \<open>Local code\<close>

text \<open>
  Claim C1, as stated, fails: the cell at line 384 of src/visualization.ipynb is not a
  sequence of library calls, it defines a function with statements of its own.
\<close>

theorem local_code_counterexample:
  "fst (filtering_nb ! 1) = 384 \<and> \<not> library_calls_only (filtering_nb ! 1)"
  by code_simp

text \<open>
  Claim C1, amended. Every code cell of the arrays notebook and of the visualization
  notebook, and every code cell of the filtering notebook but six, is straight-line
  code over library calls: imports, assignments and expression statements with no
  function definition, conditional, loop, handler, comprehension or generator
  expression in them, and no call of a function the repository defines. The six are
  listed with the constructs they hold and the local functions they call. The cell at
  line 384 defines \<open>imshow_all\<close>, the only function the repository defines, whose body
  holds a list comprehension, four conditionals (one an \<open>elif\<close>), two generator
  expressions and a \<open>for\<close> loop. The cells at lines 584, 594, 604 and 614 are
  straight-line and call \<open>imshow_all\<close>. The cell at line 839 holds two list
  comprehensions.
\<close>

theorem local_code:
  "list_all library_calls_only arrays_nb \<and>
   list_all library_calls_only visualization_nb \<and>
   local_functions = [''imshow_all''] \<and>
   map (\<lambda>c. (fst c, concat (map constructs (snd c)), local_calls c))
       (filter (\<lambda>c. \<not> library_calls_only c) filtering_nb) =
     [(384, [FunctionDef, Comprehension, Conditional, Conditional, Generator, Generator,
             Conditional, Conditional, ForLoop], []),
      (584, [], [''imshow_all'']),
      (594, [], [''imshow_all'']),
      (604, [], [''imshow_all'']),
      (614, [], [''imshow_all'']),
      (839, [Comprehension, Comprehension], [])]"
  by code_simp

subsection \<open>Cells and the names of earlier cells\<close>

text \<open>
  Claim C2, as stated, fails: the cell at line 50 of src/arrays.ipynb, \<open>type(coins)\<close>, reads
  the name \<open>coins\<close> that the cell at line 40 binds. Run in a fresh kernel it raises
  NameError; run after the cells before it, it does not.
\<close>

theorem cells_independent_counterexample:
  "fst (arrays_nb ! 1) = 40 \<and> fst (arrays_nb ! 2) = 50 \<and>
   ''coins'' \<in> set (cell_binds (arrays_nb ! 1)) \<and>
   ''coins'' \<in> set (cell_reads (arrays_nb ! 2)) \<and>
   \<not> runs_alone (arrays_nb ! 2) \<and>
   run_names builtins [arrays_nb ! 2] = Inl (NameError ''coins'') \<and>
   run_names builtins (take 3 arrays_nb) = Inr (builtins @ [''np'', ''plt'', ''data'', ''coins''])"
  by code_simp

text \<open>
  What a call of \<open>imshow_all\<close> looks up in the namespace of the notebook. The first call,
  in the cell at line 584, passes only \<open>shape=(1, 2)\<close>: \<open>limits\<close> is the default \<open>'image'\<close>
  and the branch that reads \<open>dtype_limits\<close> is not taken. Without the import of line
  386 the run stops in that cell, at the NameError for \<open>img_as_float\<close> raised inside the
  helper; and had the call passed \<open>limits='dtype'\<close>, it would stop at the NameError for
  \<open>dtype_limits\<close>, which a call that passes \<open>limits='image'\<close> does not read.
\<close>

lemma imshow_all_lookups:
  "fst (filtering_nb ! 9) = 584 \<and>
   block_unbound (namespace (take 9 filtering_nb)) (defs_in imshow_all_def_stmt)
     (snd (filtering_nb ! 9)) = [] \<and>
   block_unbound (filter (\<lambda>n. n \<noteq> ''img_as_float'') (namespace (take 9 filtering_nb)))
     (defs_in imshow_all_def_stmt) (snd (filtering_nb ! 9)) = [''img_as_float''] \<and>
   run_names builtins
     (map (\<lambda>c. (fst c, filter (\<lambda>s. s \<noteq> FromImport ''skimage'' [''img_as_float'']) (snd c)))
          filtering_nb) = Inl (NameError ''img_as_float'') \<and>
   run_names builtins
     (take 9 filtering_nb @
      [(584, [Expr (Call (Name ''imshow_all'') [Name ''image'', Kw ''limits'' (Str ''dtype'')])])]) =
     Inl (NameError ''dtype_limits'') \<and>
   run_names builtins
     (take 9 filtering_nb @
      [(584, [Expr (Call (Name ''imshow_all'') [Name ''image'', Kw ''limits'' (Str ''image'')])])]) =
     Inr (namespace (take 9 filtering_nb))"
  by code_simp

text \<open>
  Claim C2, amended. Run top to bottom from a fresh kernel, each notebook binds every
  name before it is read, by a statement of a cell or inside \<open>imshow_all\<close> when a cell
  calls it, so no cell stops with a NameError, and the run ends with all the names of
  the notebook bound. The cells that run on their own, reading nothing another cell has
  bound, are the ones listed, by the line they start at; every other cell reads names
  that earlier cells bound.
\<close>

theorem cells_run_top_to_bottom:
  "run_names builtins arrays_nb = Inr (namespace arrays_nb) \<and>
   run_names builtins visualization_nb = Inr (namespace visualization_nb) \<and>
   run_names builtins filtering_nb = Inr (namespace filtering_nb) \<and>
   map fst (filter runs_alone arrays_nb) = [20, 40, 178, 258] \<and>
   map fst (filter runs_alone visualization_nb) = [24, 35, 54, 199, 249, 269] \<and>
   map fst (filter runs_alone filtering_nb) = [371, 384, 504, 562, 649]"
  by code_simp

subsection \<open>File-system calls\<close>

text \<open>
  Claim C6, as stated, fails: \<open>os.listdir(tmp_dir)\<close> in the cell at line 282 of
  src/arrays.ipynb lists a directory, which is neither a read of a bundled sample image
  nor a write of an output.
\<close>

theorem file_calls_counterexample:
  "file_calls arrays_nb ! 6 = (282, ListDir, Some (Call (Attr (Name ''tempfile'') ''mkdtemp'') [])) \<and>
   \<not> sample_read_or_tmp_write (file_calls arrays_nb ! 6) \<and>
   \<not> list_all sample_read_or_tmp_write (file_calls arrays_nb)"
  by code_simp

text \<open>
  Claim C6, amended. Run top to bottom, the notebooks touch the file system with these
  calls and no others: loading the bundled sample images, among them \<open>io.imread\<close> of
  \<open>camera.png\<close> under \<open>skimage.data_dir\<close>; \<open>tempfile.mkdtemp()\<close>; \<open>io.imsave\<close> and
  \<open>plt.savefig\<close>, each to a path joined under the directory \<open>mkdtemp\<close> returned; and
  \<open>os.listdir\<close> of that directory. The modules imported are tempfile, os, numpy,
  matplotlib.pyplot and skimage: none that opens a network connection.
\<close>

theorem notebook_file_calls:
  "file_calls arrays_nb =
     [(40, LoadSample, None), (80, LoadSample, None), (210, LoadSample, None),
      (271, ReadImage, Some (sample_path ''camera.png'')),
      (282, MakeTempDir, None),
      (282, WriteImage, Some (tmp_path ''my_camera.png'')),
      (282, ListDir, Some (Call (Attr (Name ''tempfile'') ''mkdtemp'') [])),
      (295, WriteImage, Some (tmp_path ''gaussian_camera.png''))] \<and>
   file_calls visualization_nb =
     [(54, LoadSample, None), (79, LoadSample, None),
      (175, MakeTempDir, None),
      (175, WriteFigure, Some (tmp_path ''figure.png'')),
      (175, WriteFigure, Some (tmp_path ''figure.pdf'')),
      (175, ListDir, Some (Call (Attr (Name ''tempfile'') ''mkdtemp'') [])),
      (280, LoadSample, None), (312, LoadSample, None)] \<and>
   file_calls filtering_nb =
     [(450, LoadSample, None), (692, LoadSample, None), (910, LoadSample, None)] \<and>
   in_data_dir (Some (sample_path ''camera.png'')) \<and>
   in_tmp_dir (Some (tmp_path ''my_camera.png'')) \<and>
   in_tmp_dir (Some (tmp_path ''gaussian_camera.png'')) \<and>
   in_tmp_dir (Some (tmp_path ''figure.png'')) \<and>
   in_tmp_dir (Some (tmp_path ''figure.pdf'')) \<and>
   imported_modules all_cells = [''tempfile'', ''os'', ''numpy'', ''matplotlib.pyplot'', ''skimage'']"
  by code_simp

subsection \<open>Runs without a handler hand exceptions on\<close>

lemma quiet_refl: "quiet w n n"
  by (auto simp: quiet_def)

lemma quiet_Suc: "raises w n = None \<Longrightarrow> quiet w (Suc n) m \<Longrightarrow> quiet w n m"
  unfolding quiet_def by (metis Suc_leI le_neq_implies_less)

lemma quiet_trans: "quiet w n m \<Longrightarrow> quiet w m p \<Longrightarrow> quiet w n p"
  unfolding quiet_def by (metis not_le_imp_less)

lemma hands_on_then:
  assumes "hands_on w n (n1, None)" and "hands_on w n1 res"
  shows "hands_on w n res"
proof -
  obtain n2 r where res: "res = (n2, r)" by (cases res)
  from assms(1) have a: "n \<le> n1" "quiet w n n1" by (simp_all add: hands_on_def)
  show ?thesis
  proof (cases r)
    case None
    with assms(2) res have "n1 \<le> n2" "quiet w n1 n2" by (simp_all add: hands_on_def)
    with a res None show ?thesis by (auto simp: hands_on_def intro: quiet_trans)
  next
    case (Some e)
    with assms(2) res have "n1 < n2" "raises w (n2 - 1) = Some e" "quiet w n1 (n2 - 1)"
      by (simp_all add: hands_on_def)
    with a res Some show ?thesis by (auto simp: hands_on_def intro: quiet_trans)
  qed
qed

lemma hands_on_oper_then:
  assumes "raises w n = None" and "hands_on w (Suc n) res"
  shows "hands_on w n res"
proof (rule hands_on_then)
  show "hands_on w n (Suc n, None)"
    using assms(1) by (auto simp: hands_on_def intro: quiet_Suc quiet_refl)
  show "hands_on w (Suc n) res" by (rule assms(2))
qed

lemma hands_on_raise: "raises w n = Some e \<Longrightarrow> hands_on w n (Suc n, Some e)"
  by (simp add: hands_on_def quiet_refl)

lemma faithful_oper: "faithful w (oper w)"
  unfolding faithful_def oper_def
proof
  fix n
  show "hands_on w n (Suc n, raises w n)"
  proof (cases "raises w n")
    case None
    then show ?thesis by (auto simp: hands_on_def intro: quiet_Suc quiet_refl)
  next
    case (Some e)
    then show ?thesis by (simp add: hands_on_raise)
  qed
qed

lemma faithful_chain:
  assumes "\<And>f. f \<in> set fs \<Longrightarrow> faithful w f"
  shows "faithful w (chain fs)"
  using assms
proof (induction fs)
  case Nil
  show ?case by (simp add: faithful_def hands_on_def quiet_refl)
next
  case (Cons f fs)
  have f: "faithful w f" and fs: "faithful w (chain fs)" using Cons by simp_all
  show ?case unfolding faithful_def
  proof
    fix n
    obtain n1 r1 where r1: "f n = (n1, r1)" by (cases "f n")
    from f have h: "hands_on w n (n1, r1)" unfolding faithful_def r1 [symmetric] by simp
    show "hands_on w n (chain (f # fs) n)"
    proof (cases r1)
      case None
      from fs have "hands_on w n1 (chain fs n1)" by (simp add: faithful_def)
      with h None have "hands_on w n (chain fs n1)" by (auto intro: hands_on_then)
      with r1 None show ?thesis by simp
    next
      case (Some e)
      with h r1 show ?thesis by simp
    qed
  qed
qed

lemma faithful_repeat:
  assumes "faithful w body"
  shows "faithful w (repeat k body)"
proof (induction k)
  case 0
  show ?case by (simp add: faithful_def hands_on_def quiet_refl)
next
  case (Suc k)
  show ?case unfolding faithful_def
  proof
    fix n
    obtain n1 r1 where r1: "body n = (n1, r1)" by (cases "body n")
    from assms have h: "hands_on w n (n1, r1)" unfolding faithful_def r1 [symmetric] by simp
    show "hands_on w n (repeat (Suc k) body n)"
    proof (cases r1)
      case None
      from Suc have "hands_on w n1 (repeat k body n1)" by (simp add: faithful_def)
      with h None have "hands_on w n (repeat k body n1)" by (auto intro: hands_on_then)
      with r1 None show ?thesis by simp
    next
      case (Some e)
      with h r1 show ?thesis by simp
    qed
  qed
qed

lemma faithful_loop:
  assumes "faithful w body"
  shows "faithful w (loop w body)"
  unfolding faithful_def
proof
  fix n
  show "hands_on w n (loop w body n)"
  proof (cases "raises w n")
    case None
    from faithful_repeat [OF assms] have "hands_on w (Suc n) (repeat (iters w n) body (Suc n))"
      by (simp add: faithful_def)
    from hands_on_oper_then [OF None this] None show ?thesis by (simp add: loop_def)
  next
    case (Some e)
    then show ?thesis by (simp add: loop_def hands_on_raise)
  qed
qed

lemma faithful_branch:
  assumes "faithful w a" and "faithful w b"
  shows "faithful w (branch w a b)"
  unfolding faithful_def
proof
  fix n
  show "hands_on w n (branch w a b n)"
  proof (cases "raises w n")
    case None
    from assms have "hands_on w (Suc n) (if truth w n then a (Suc n) else b (Suc n))"
      by (simp add: faithful_def)
    from hands_on_oper_then [OF None this] None show ?thesis by (simp add: branch_def)
  next
    case (Some e)
    then show ?thesis by (simp add: branch_def hands_on_raise)
  qed
qed

lemma faithful_eval: "faithful w (eval w e)"
proof (induction e)
  case (Slice lo hi)
  then show ?case
    by (auto simp del: chain.simps intro!: faithful_chain split: option.splits)
qed (auto simp del: chain.simps intro!: faithful_chain faithful_oper faithful_loop)

lemma faithful_store: "faithful w (store w t)"
  by (induction w t rule: store.induct)
     (auto simp del: chain.simps intro!: faithful_chain faithful_oper faithful_eval)

lemma faithful_exec: "handler_free s \<Longrightarrow> faithful w (exec w s)"
proof (induction s)
  case (IfS c a b)
  then show ?case
    by (auto simp del: chain.simps intro!: faithful_chain faithful_branch faithful_eval simp: list_all_iff)
next
  case (ForS t it body)
  then show ?case
    by (auto simp del: chain.simps intro!: faithful_chain faithful_loop faithful_eval faithful_store simp: list_all_iff)
qed (auto simp del: chain.simps intro!: faithful_chain faithful_oper faithful_eval faithful_store)

lemma faithful_run_block: "list_all handler_free ss \<Longrightarrow> faithful w (run_block w ss)"
  unfolding run_block_def
  by (rule faithful_chain) (auto simp: list_all_iff intro: faithful_exec)

lemma notebooks_handler_free: "list_all (list_all handler_free) (code_blocks all_cells)"
  by code_simp

text \<open>
  Claim C7. No cell and no function body of the notebooks has an exception handler, so
  a run of any of them, in any world and from any point, hands every exception on as it
  is: if the run ends with an exception, that exception is what the last operation
  performed raised, and every operation before it returned (none raised and was caught,
  retried or replaced); if the run returns, no operation it performed raised.
\<close>

theorem notebooks_hand_on_exceptions:
  assumes "b \<in> set (code_blocks all_cells)"
  shows "case run_block w b n of
           (n', None) \<Rightarrow> n \<le> n' \<and> (\<forall>k. n \<le> k \<and> k < n' \<longrightarrow> raises w k = None)
         | (n', Some e) \<Rightarrow>
             n < n' \<and> raises w (n' - 1) = Some e \<and> (\<forall>k. n \<le> k \<and> k < n' - 1 \<longrightarrow> raises w k = None)"
proof -
  from assms notebooks_handler_free have "list_all handler_free b"
    by (simp add: list_all_iff)
  then have "hands_on w n (run_block w b n)"
    using faithful_run_block [of b w] by (simp add: faithful_def)
  then show ?thesis
    unfolding hands_on_def quiet_def .
qed

theorem notebooks_hand_on_exceptions_witness:
  "snd (arrays_nb ! 15) \<in> set (code_blocks all_cells) \<and>
   run_block (fails_at 9 (LibraryError ''disk full'')) (snd (arrays_nb ! 15)) 0 =
     (10, Some (LibraryError ''disk full'')) \<and>
   raises (fails_at 9 (LibraryError ''disk full'')) 9 = Some (LibraryError ''disk full'') \<and>
   raises (fails_at 9 (LibraryError ''disk full'')) 8 = None"
proof -
  have b: "snd (arrays_nb ! 15) \<in> set (code_blocks all_cells)"
    by code_simp
  have c: "snd (arrays_nb ! 15) =
           [Assign (Name ''file_name'')
              (Call (Attr (Attr (Name ''os'') ''path'') ''join'')
                 [Name ''tmp_dir'', Str ''gaussian_camera.png'']),
            Expr (Call (Attr (Name ''io'') ''imsave'') [Name ''file_name'', Name ''camera_gaussian''])]"
    by code_simp
  have r: "run_block (fails_at 9 (LibraryError ''disk full'')) (snd (arrays_nb ! 15)) 0 =
     (10, Some (LibraryError ''disk full''))"
    unfolding c by (simp add: run_block_def fails_at_def oper_def)
  from notebooks_hand_on_exceptions [OF b, where w = "fails_at 9 (LibraryError ''disk full'')" and n = 0]
  have h: "raises (fails_at 9 (LibraryError ''disk full'')) 9 = Some (LibraryError ''disk full'') \<and>
        (\<forall>k. k < 9 \<longrightarrow> raises (fails_at 9 (LibraryError ''disk full'')) k = None)"
    unfolding r by simp
  then have "raises (fails_at 9 (LibraryError ''disk full'')) 8 = None"
    by simp
  with h show ?thesis
    by (intro conjI b r) simp_all
qed

section \<open>Properties of the array statements\<close>

lemma assign_block_nth:
  assumes "i < length a" "j < length (a ! i)"
  shows "assign_block r0 r1 c0 c1 v a ! i ! j =
          (if r0 \<le> i \<and> i < r1 \<and> c0 \<le> j \<and> j < c1 then v else a ! i ! j)"
  using assms by (simp add: assign_block_def nth_enumerate_eq)

lemma assign_block_shape: "same_shape (assign_block r0 r1 c0 c1 v a) a"
  unfolding same_shape_def assign_block_def
  by (rule nth_equalityI) (simp_all add: nth_enumerate_eq)

lemma same_shape_lengths:
  assumes "same_shape m a"
  shows "length m = length a" and "i < length a \<Longrightarrow> length (m ! i) = length (a ! i)"
proof -
  from assms have e: "map length m = map length a" by (simp add: same_shape_def)
  then show l: "length m = length a" by (metis length_map)
  show "length (m ! i) = length (a ! i)" if "i < length a"
    using e l that by (metis nth_map)
qed

lemma mask_assign_nth:
  assumes "same_shape m a" "i < length a" "j < length (a ! i)"
  shows "mask_assign m v a ! i ! j = (if m ! i ! j then v else a ! i ! j)"
  using assms same_shape_lengths [OF assms(1)] by (simp add: mask_assign_def)

lemma mask_assign_shape:
  assumes "same_shape m a"
  shows "same_shape (mask_assign m v a) a"
  unfolding same_shape_def
proof (rule nth_equalityI)
  show "length (map length (mask_assign m v a)) = length (map length a)"
    using same_shape_lengths(1) [OF assms] by (simp add: mask_assign_def)
  fix i
  assume "i < length (map length (mask_assign m v a))"
  then have i: "i < length a" using same_shape_lengths(1) [OF assms] by (simp add: mask_assign_def)
  with same_shape_lengths [OF assms] show "map length (mask_assign m v a) ! i = map length a ! i"
    by (simp add: mask_assign_def)
qed

lemma array_less_shape: "same_shape (array_less a t) a"
  by (simp add: same_shape_def array_less_def comp_def)

lemma array_greater_shape: "same_shape (array_greater a t) a"
  by (simp add: same_shape_def array_greater_def comp_def)

lemma zeros_like_shape: "same_shape (zeros_like a) a"
  by (simp add: same_shape_def zeros_like_def comp_def)

lemma same_shape_trans: "same_shape a b \<Longrightarrow> same_shape b c \<Longrightarrow> same_shape a c"
  by (simp add: same_shape_def)

lemma same_shape_sym: "same_shape a b \<Longrightarrow> same_shape b a"
  by (simp add: same_shape_def)

lemma red_square_frame:
  assumes "red_square cat mem = Inr mem'"
  shows "same_shape (heap mem' cat) (heap mem cat) \<and>
         (\<forall>a. a \<noteq> cat \<longrightarrow> heap mem' a = heap mem a) \<and>
         (\<forall>i j. i < length (heap mem cat) \<and> j < length (heap mem cat ! i) \<longrightarrow>
            heap mem' cat ! i ! j =
              (if 10 \<le> i \<and> i < 110 \<and> 10 \<le> j \<and> j < 110 then [255, 0, 0] else heap mem cat ! i ! j))"
proof -
  from assms have m: "mem' = overwrite cat (assign_block 10 110 10 110 [255, 0, 0] (heap mem cat)) mem"
    by (auto simp: red_square_def split: if_splits)
  show ?thesis unfolding m
    by (simp add: overwrite_def assign_block_shape assign_block_nth)
qed

lemma background_cell_frame:
  assumes "coins < next_free mem"
  shows "\<exists>mem'. background_cell coins mem = Inr (array_less (heap mem coins) 90, next_free mem, mem') \<and>
           heap mem' coins = heap mem coins \<and>
           heap mem' (next_free mem) = mask_assign (array_less (heap mem coins) 90) 0 (heap mem coins)"
proof -
  let ?m = "array_less (heap mem coins) 90"
  let ?mem1 = "\<lparr>heap = (heap mem)(next_free mem := heap mem coins), next_free = Suc (next_free mem)\<rparr>"
  have s: "same_shape ?m (heap ?mem1 (next_free mem))"
    by (simp add: array_less_shape)
  then have "store_mask (next_free mem) ?m 0 ?mem1 =
             Inr (overwrite (next_free mem) (mask_assign ?m 0 (heap mem coins)) ?mem1)"
    by (simp add: store_mask_def)
  then have "background_cell coins mem =
             Inr (?m, next_free mem, overwrite (next_free mem) (mask_assign ?m 0 (heap mem coins)) ?mem1)"
    by (simp add: background_cell_def alloc_def Let_def)
  moreover have "heap (overwrite (next_free mem) (mask_assign ?m 0 (heap mem coins)) ?mem1) coins = heap mem coins"
    using assms by (simp add: overwrite_def)
  moreover have "heap (overwrite (next_free mem) (mask_assign ?m 0 (heap mem coins)) ?mem1) (next_free mem) =
                 mask_assign ?m 0 (heap mem coins)"
    by (simp add: overwrite_def)
  ultimately show ?thesis by blast
qed

lemma notebook_stores_eval:
  "notebook_stores arrays_nb =
     [(98, SubscriptStore, Name ''cat''), (145, SubscriptStore, Name ''coins_bg'')]"
  "notebook_stores visualization_nb = [(294, SubscriptStore, Name ''coins_color'')]"
  "notebook_stores filtering_nb =
     [(384, MethodCall ''pop'', Name ''kwargs''),
      (384, MethodCall ''pop'', Name ''kwargs''),
      (384, MethodCall ''setdefault'', Name ''kwargs''),
      (384, MethodCall ''setdefault'', Name ''kwargs''),
      (384, MethodCall ''setdefault'', Name ''kwargs''),
      (384, MethodCall ''setdefault'', Name ''kwargs''),
      (384, MethodCall ''pop'', Name ''kwargs''),
      (524, SubscriptStore, Attr (Name ''plt'') ''rcParams''),
      (637, Augmented, Name ''im''),
      (674, SubscriptStore, Attr (Name ''plt'') ''rcParams''),
      (705, SubscriptStore, Name ''markers''),
      (705, SubscriptStore, Name ''markers''),
      (758, SubscriptStore, Name ''seeds'')]"
  by code_simp+

subsection \<open>Writes in place\<close>

text \<open>
  Claim C3, as stated, fails: after \<open>cat[10:110, 10:110, :] = [255, 0, 0]\<close> the array that
  \<open>cat\<close> names, here an 11 by 11 image at address 0, has a red pixel in its last row and
  column, where it had (143, 120, 104).
\<close>

theorem red_square_counterexample:
  "heap cat_memory 0 = replicate 11 (replicate 11 [143, 120, 104]) \<and>
   contents_after (red_square 0 cat_memory) 0 =
     Inr (replicate 10 (replicate 11 [143, 120, 104]) @
          [replicate 10 [143, 120, 104] @ [[255, 0, 0]]])"
  by code_simp

text \<open>
  Claim C3, amended. The statements of the notebooks that write into an existing
  object by a subscript, attribute or augmented assignment, or by calling a modifying
  method of a list, dictionary, set or array, are the ones listed, by cell, by the way
  they write and by the object written. Image arrays are written in place by subscript
  assignments into \<open>cat\<close>, \<open>coins_bg\<close>, \<open>coins_color\<close>, \<open>markers\<close> (twice) and \<open>seeds\<close> and
  by the augmented assignment \<open>im += ...\<close>; no modifying method is called on an array.
  The other writes are the two assignments into \<open>plt.rcParams\<close> and, inside \<open>imshow_all\<close>,
  three calls of \<open>kwargs.pop\<close> and four of \<open>kwargs.setdefault\<close> on the keyword dictionary of
  the call. The red-square assignment writes into the array \<open>cat\<close> names: afterwards
  every pixel in rows and columns 10 to 109 is (255, 0, 0), every other pixel and the
  shape are as before, and so is every other array. \<open>coins_bg[mask_bg] = 0\<close> writes into
  the copy \<open>np.copy\<close> made, and \<open>coins\<close> is as before.
\<close>

theorem writes_in_place:
  "notebook_stores arrays_nb =
     [(98, SubscriptStore, Name ''cat''), (145, SubscriptStore, Name ''coins_bg'')] \<and>
   notebook_stores visualization_nb = [(294, SubscriptStore, Name ''coins_color'')] \<and>
   notebook_stores filtering_nb =
     [(384, MethodCall ''pop'', Name ''kwargs''),
      (384, MethodCall ''pop'', Name ''kwargs''),
      (384, MethodCall ''setdefault'', Name ''kwargs''),
      (384, MethodCall ''setdefault'', Name ''kwargs''),
      (384, MethodCall ''setdefault'', Name ''kwargs''),
      (384, MethodCall ''setdefault'', Name ''kwargs''),
      (384, MethodCall ''pop'', Name ''kwargs''),
      (524, SubscriptStore, Attr (Name ''plt'') ''rcParams''),
      (637, Augmented, Name ''im''),
      (674, SubscriptStore, Attr (Name ''plt'') ''rcParams''),
      (705, SubscriptStore, Name ''markers''),
      (705, SubscriptStore, Name ''markers''),
      (758, SubscriptStore, Name ''seeds'')] \<and>
   (red_square cat mem = Inr mem' \<longrightarrow>
      same_shape (heap mem' cat) (heap mem cat) \<and>
      (\<forall>a. a \<noteq> cat \<longrightarrow> heap mem' a = heap mem a) \<and>
      (\<forall>i j. i < length (heap mem cat) \<and> j < length (heap mem cat ! i) \<longrightarrow>
         heap mem' cat ! i ! j =
           (if 10 \<le> i \<and> i < 110 \<and> 10 \<le> j \<and> j < 110 then [255, 0, 0] else heap mem cat ! i ! j))) \<and>
   (coins < next_free gmem \<longrightarrow>
      (\<exists>gmem'. background_cell coins gmem = Inr (array_less (heap gmem coins) 90, next_free gmem, gmem') \<and>
         heap gmem' coins = heap gmem coins \<and>
         heap gmem' (next_free gmem) = mask_assign (array_less (heap gmem coins) 90) 0 (heap gmem coins)))"
  using notebook_stores_eval red_square_frame [of cat mem mem'] background_cell_frame [of coins gmem]
  by blast

theorem writes_in_place_witness:
  "red_square 0 cat_memory =
     Inr (overwrite 0 (assign_block 10 110 10 110 [255, 0, 0] (heap cat_memory 0)) cat_memory) \<and>
   heap (overwrite 0 (assign_block 10 110 10 110 [255, 0, 0] (heap cat_memory 0)) cat_memory) 0 ! 10 ! 10 =
     [255, 0, 0] \<and>
   heap (overwrite 0 (assign_block 10 110 10 110 [255, 0, 0] (heap cat_memory 0)) cat_memory) 0 ! 9 ! 10 =
     [143, 120, 104] \<and>
   0 < next_free coins_memory \<and>
   (\<exists>gmem'. background_cell 0 coins_memory = Inr ([[True, False, False], [True, False, False]], 1, gmem') \<and>
      heap gmem' 0 = [[10, 100, 200], [29, 151, 150]] \<and>
      heap gmem' 1 = [[0, 100, 200], [0, 151, 150]])"
proof -
  let ?mem' = "overwrite 0 (assign_block 10 110 10 110 [255, 0, 0] (heap cat_memory 0)) cat_memory"
  have rs: "red_square 0 cat_memory = Inr ?mem'"
    by (simp add: red_square_def cat_memory_def list_all_iff)
  have len: "length (heap cat_memory 0) = 11" "length (heap cat_memory 0 ! 10) = 11"
            "length (heap cat_memory 0 ! 9) = 11"
            "heap cat_memory 0 ! 9 ! 10 = [143, 120, 104]"
    by (simp_all add: cat_memory_def)
  have nf: "0 < next_free coins_memory" "next_free coins_memory = 1"
    by (simp_all add: coins_memory_def)
  have v: "heap coins_memory 0 = [[10, 100, 200], [29, 151, 150]]"
          "array_less [[10, 100, 200], [29, 151, 150]] 90 = [[True, False, False], [True, False, False]]"
          "mask_assign [[True, False, False], [True, False, False]] 0 [[10, 100, 200], [29, 151, 150]] =
             [[0, 100, 200], [0, 151, 150 :: 8 word]]"
    by code_simp+
  from writes_in_place [of 0 cat_memory ?mem' 0 coins_memory] rs nf(1)
  have a: "\<forall>i j. i < length (heap cat_memory 0) \<and> j < length (heap cat_memory 0 ! i) \<longrightarrow>
         heap ?mem' 0 ! i ! j =
           (if 10 \<le> i \<and> i < 110 \<and> 10 \<le> j \<and> j < 110 then [255, 0, 0] else heap cat_memory 0 ! i ! j)"
    and b: "\<exists>gmem'. background_cell 0 coins_memory =
               Inr (array_less (heap coins_memory 0) 90, next_free coins_memory, gmem') \<and>
             heap gmem' 0 = heap coins_memory 0 \<and>
             heap gmem' (next_free coins_memory) =
               mask_assign (array_less (heap coins_memory 0) 90) 0 (heap coins_memory 0)"
    by blast+
  from a len have "heap ?mem' 0 ! 10 ! 10 = [255, 0, 0]" "heap ?mem' 0 ! 9 ! 10 = [143, 120, 104]"
    by simp_all
  with rs nf b show ?thesis
    unfolding v nf(2) by simp
qed

subsection \<open>Element ranges\<close>

text \<open>
  Claim C4, as stated, fails for the floating-point image \<open>im = data.binary_blobs() - 0.5\<close>:
  where the blob image is False, the sample is -0.5, outside 0..1.
\<close>

theorem float_range_counterexample:
  "blobs_minus_half [[True, False]] = [[1 / 2, - (1 / 2)]] \<and>
   \<not> in_unit_range (blobs_minus_half [[True, False]])"
  by (simp add: blobs_minus_half_def in_unit_range_def)

text \<open>
  Claim C4, amended. An unsigned 8-bit image has its samples in 0..255 and arithmetic
  on it stays there by wrapping: each sample of \<open>camera_overflow = 2 * camera\<close> is twice
  the sample of \<open>camera\<close> modulo 256. A floating-point image is not confined to 0..1:
  each sample of \<open>im = data.binary_blobs() - 0.5\<close> is 0.5 where the blob image is True and
  -0.5 where it is False.
\<close>

theorem dtype_ranges:
  "(i < length camera \<and> j < length (camera ! i) \<longrightarrow>
      unat (camera_overflow camera ! i ! j) = (2 * unat (camera ! i ! j)) mod 256 \<and>
      unat (camera_overflow camera ! i ! j) \<le> 255) \<and>
   (k < length blobs \<and> l < length (blobs ! k) \<longrightarrow>
      blobs_minus_half blobs ! k ! l = (if blobs ! k ! l then 1 / 2 else - (1 / 2)))"
proof (intro conjI impI)
  assume a: "i < length camera \<and> j < length (camera ! i)"
  have "unat (2 * (camera ! i ! j)) = (2 * unat (camera ! i ! j)) mod 256"
    by (simp add: unat_word_ariths)
  with a show "unat (camera_overflow camera ! i ! j) = (2 * unat (camera ! i ! j)) mod 256"
    by (simp add: camera_overflow_def)
  have "unat (camera_overflow camera ! i ! j) < 2 ^ 8"
    using unsigned_less [of "camera_overflow camera ! i ! j"] by simp
  then show "unat (camera_overflow camera ! i ! j) \<le> 255" by simp
next
  assume "k < length blobs \<and> l < length (blobs ! k)"
  then show "blobs_minus_half blobs ! k ! l = (if blobs ! k ! l then 1 / 2 else - (1 / 2))"
    by (simp add: blobs_minus_half_def)
qed

theorem dtype_ranges_witness:
  "unat (camera_overflow [[100, 200, 128]] ! 0 ! 1) = 144 \<and>
   blobs_minus_half [[True, False]] ! 0 ! 1 = - (1 / 2)"
proof -
  from dtype_ranges [of 0 "[[100, 200, 128]]" 1 0 "[[True, False]]" 1]
  show ?thesis by simp
qed

subsection \<open>Derived arrays\<close>

lemma markers_cell_frame:
  assumes "coins < next_free mem"
  shows "\<exists>mem1 mem2 mem3.
           markers_cell coins mem = Inr (next_free mem, mem1, mem2, mem3) \<and>
           heap mem1 (next_free mem) = zeros_like (heap mem coins) \<and>
           heap mem3 coins = heap mem coins \<and>
           same_shape (heap mem3 (next_free mem)) (heap mem coins) \<and>
           (\<forall>i j. i < length (heap mem coins) \<and> j < length (heap mem coins ! i) \<longrightarrow>
              heap mem3 (next_free mem) ! i ! j =
                (if 150 < unat (heap mem coins ! i ! j) then 2
                 else if unat (heap mem coins ! i ! j) < 30 then 1 else 0))"
proof -
  let ?c = "heap mem coins"
  let ?a = "next_free mem"
  let ?mem1 = "\<lparr>heap = (heap mem)(?a := zeros_like ?c), next_free = Suc ?a\<rparr>"
  let ?z1 = "mask_assign (array_less ?c 30) 1 (zeros_like ?c)"
  let ?mem2 = "overwrite ?a ?z1 ?mem1"
  let ?z2 = "mask_assign (array_greater ?c 150) 2 ?z1"
  let ?mem3 = "overwrite ?a ?z2 ?mem2"
  from assms have ne: "coins \<noteq> ?a" by simp
  have c1: "heap ?mem1 coins = ?c" "heap ?mem1 ?a = zeros_like ?c"
    using ne by simp_all
  have sz: "same_shape (array_less ?c 30) (zeros_like ?c)"
    by (rule same_shape_trans [OF array_less_shape same_shape_sym [OF zeros_like_shape]])
  have s1: "store_mask ?a (array_less (heap ?mem1 coins) 30) 1 ?mem1 = Inr ?mem2"
    unfolding c1(1) using sz by (simp add: store_mask_def)
  have c2: "heap ?mem2 coins = ?c" "heap ?mem2 ?a = ?z1"
    using ne by (simp_all add: overwrite_def)
  have z1: "same_shape ?z1 ?c"
    by (rule same_shape_trans [OF mask_assign_shape [OF sz] zeros_like_shape])
  have sg: "same_shape (array_greater ?c 150) ?z1"
    by (rule same_shape_trans [OF array_greater_shape same_shape_sym [OF z1]])
  have s2: "store_mask ?a (array_greater (heap ?mem2 coins) 150) 2 ?mem2 = Inr ?mem3"
    unfolding c2(1) using sg c2(2) by (simp add: store_mask_def)
  have run: "markers_cell coins mem = Inr (?a, ?mem1, ?mem2, ?mem3)"
    using s1 s2 by (simp add: markers_cell_def alloc_def Let_def)
  have c3: "heap ?mem3 coins = ?c" "heap ?mem3 ?a = ?z2"
    using ne by (simp_all add: overwrite_def)
  have z2: "same_shape ?z2 ?c"
    by (rule same_shape_trans [OF mask_assign_shape [OF sg] z1])
  have px: "?z2 ! i ! j = (if 150 < unat (?c ! i ! j) then 2 else if unat (?c ! i ! j) < 30 then 1 else 0)"
    if "i < length ?c" "j < length (?c ! i)" for i j
  proof -
    from same_shape_lengths [OF z1] that have l1: "i < length ?z1" "j < length (?z1 ! i)" by simp_all
    from same_shape_lengths [OF zeros_like_shape [of ?c]] that
    have l0: "i < length (zeros_like ?c)" "j < length (zeros_like ?c ! i)" by simp_all
    have "?z2 ! i ! j = (if array_greater ?c 150 ! i ! j then 2 else ?z1 ! i ! j)"
      by (rule mask_assign_nth [OF sg l1])
    also have "?z1 ! i ! j = (if array_less ?c 30 ! i ! j then 1 else zeros_like ?c ! i ! j)"
      by (rule mask_assign_nth [OF sz l0])
    finally show ?thesis using that
      by (simp add: array_greater_def array_less_def zeros_like_def)
  qed
  from run c1(2) c3 z2 px show ?thesis
    by (intro exI [of _ ?mem1] exI [of _ ?mem2] exI [of _ ?mem3]) simp
qed

lemma written_derived_entities:
  "filter (\<lambda>n. n \<in> set (written_names all_cells)) derived_entities = [''markers'', ''seeds'']"
  by code_simp

text \<open>
  Claim C5, as stated, fails: \<open>markers\<close>, created by \<open>np.zeros_like(coins)\<close>, is written
  into by the two statements that follow. On a 2 by 3 image: all zeros when created,
  filled with labels afterwards.
\<close>

theorem derived_arrays_counterexample:
  "heap coins_memory 0 = [[10, 100, 200], [29, 151, 150]] \<and>
   markers_history 0 coins_memory =
     Inr [[[0, 0, 0], [0, 0, 0]], [[1, 0, 0], [1, 0, 0]], [[1, 0, 2], [1, 2, 0]]]"
  by code_simp

text \<open>
  Claim C5, amended. Of the derived entities the notebooks bind (boolean masks, label
  maps, coordinate lists, region-property records), none is written into after it is
  produced but the marker arrays \<open>markers\<close> and \<open>seeds\<close>, which subscript assignments
  fill in place before they are handed to \<open>watershed\<close>. \<open>markers\<close> is produced filled with
  zeros, in a new array of the shape of \<open>coins\<close>, and ends with 2 where \<open>coins\<close> is above
  150, 1 where it is below 30 and 0 elsewhere; \<open>coins\<close> is as before.
\<close>

theorem derived_arrays_writes:
  "filter (\<lambda>n. n \<in> set (written_names all_cells)) derived_entities = [''markers'', ''seeds''] \<and>
   (coins < next_free mem \<longrightarrow>
      (\<exists>mem1 mem2 mem3.
         markers_cell coins mem = Inr (next_free mem, mem1, mem2, mem3) \<and>
         heap mem1 (next_free mem) = zeros_like (heap mem coins) \<and>
         heap mem3 coins = heap mem coins \<and>
         same_shape (heap mem3 (next_free mem)) (heap mem coins) \<and>
         (\<forall>i j. i < length (heap mem coins) \<and> j < length (heap mem coins ! i) \<longrightarrow>
            heap mem3 (next_free mem) ! i ! j =
              (if 150 < unat (heap mem coins ! i ! j) then 2
               else if unat (heap mem coins ! i ! j) < 30 then 1 else 0))))"
  using written_derived_entities markers_cell_frame [of coins mem]
  by blast

theorem derived_arrays_writes_witness:
  "0 < next_free coins_memory \<and>
   (\<exists>mem1 mem2 mem3.
      markers_cell 0 coins_memory = Inr (1, mem1, mem2, mem3) \<and>
      heap mem1 1 = [[0, 0, 0], [0, 0, 0]] \<and>
      heap mem3 0 = [[10, 100, 200], [29, 151, 150]] \<and>
      heap mem3 1 ! 1 ! 1 = 2)"
proof -
  have nf: "0 < next_free coins_memory" "next_free coins_memory = 1"
    by (simp_all add: coins_memory_def)
  have v: "heap coins_memory 0 = [[10, 100, 200], [29, 151, 150]]"
          "zeros_like [[10, 100, 200], [29, 151, 150]] = [[0, 0, 0], [0, 0, 0]]"
    by code_simp+
  from derived_arrays_writes [of 0 coins_memory] nf(1)
  obtain mem1 mem2 mem3 where
    r: "markers_cell 0 coins_memory = Inr (next_free coins_memory, mem1, mem2, mem3)"
    and z: "heap mem1 (next_free coins_memory) = zeros_like (heap coins_memory 0)"
    and c: "heap mem3 0 = heap coins_memory 0"
    and p: "\<forall>i j. i < length (heap coins_memory 0) \<and> j < length (heap coins_memory 0 ! i) \<longrightarrow>
              heap mem3 (next_free coins_memory) ! i ! j =
                (if 150 < unat (heap coins_memory 0 ! i ! j) then 2
                 else if unat (heap coins_memory 0 ! i ! j) < 30 then 1 else 0)"
    by blast
  from p have "heap mem3 1 ! 1 ! 1 = 2"
    unfolding v nf(2) by (simp add: v)
  with r z c nf show ?thesis
    unfolding v nf(2) by (auto simp: v)
qed

end
